theory Spec2Isabelle
  imports Main "HOL-Library.AList"
begin

section \<open>JavaScript values\<close>

text \<open>
  The user module (\<^verbatim>\<open>User\<close>, part_000) and the user store (\<^verbatim>\<open>UserStore\<close>, part_001)
  work on plain JavaScript objects: the user's data, the credentials of a login, the
  option bags and the social-identity tokens.  A value is \<^verbatim>\<open>undefined\<close>, \<^verbatim>\<open>null\<close>, a
  boolean, a string or an object; an object is the list of its own properties in insertion
  order.  Numbers (IEEE doubles) are left out: ids, user names, passwords and provider
  names are strings, tokens are objects.  A character is one code point below 256.
\<close>

datatype jv = JUndefined | JNull | JBool bool | JStr string | JObj "(string \<times> jv) list"

type_synonym obj = "(string \<times> jv) list"

text \<open>\<^verbatim>\<open>if (v)\<close>, \<^verbatim>\<open>!v\<close>, \<^verbatim>\<open>v || w\<close>: the truthiness of a value.\<close>

fun truthy :: "jv \<Rightarrow> bool" where
  "truthy JUndefined = False"
| "truthy JNull = False"
| "truthy (JBool b) = b"
| "truthy (JStr s) = (s \<noteq> [])"
| "truthy (JObj ps) = True"

text \<open>\<^verbatim>\<open>o[k]\<close> on an object: the property, or \<^verbatim>\<open>undefined\<close> when \<^verbatim>\<open>o\<close> has none.\<close>

definition getp :: "obj \<Rightarrow> string \<Rightarrow> jv" where
  "getp ps k = (case map_of ps k of None \<Rightarrow> JUndefined | Some v \<Rightarrow> v)"

text \<open>\<^verbatim>\<open>o[k] = v\<close> and \<^verbatim>\<open>delete o[k]\<close> on an object.\<close>

definition setp :: "obj \<Rightarrow> string \<Rightarrow> jv \<Rightarrow> obj" where
  "setp ps k v = AList.update k v ps"

definition delp :: "obj \<Rightarrow> string \<Rightarrow> obj" where
  "delp ps k = AList.delete k ps"

text \<open>
  \<^verbatim>\<open>a === b\<close>.  Primitives are compared by value.  Two objects are identical only when
  they are the same object; the objects compared in this module come one from the
  client's stored copy and one from the session, so they never are.
\<close>

fun strict_eq :: "jv \<Rightarrow> jv \<Rightarrow> bool" where
  "strict_eq (JObj ps) b = False"
| "strict_eq a (JObj qs) = False"
| "strict_eq a b = (a = b)"

text \<open>\<^verbatim>\<open>String(v)\<close>.\<close>

fun String :: "jv \<Rightarrow> string" where
  "String JUndefined = ''undefined''"
| "String JNull = ''null''"
| "String (JBool b) = (if b then ''true'' else ''false'')"
| "String (JStr s) = s"
| "String (JObj ps) = ''[object Object]''"

text \<open>
  \<^verbatim>\<open>s.trim()\<close> removes white space and line terminators at both ends: tab, line feed,
  vertical tab, form feed, carriage return, space and no-break space.
\<close>

definition is_space :: "char \<Rightarrow> bool" where
  "is_space c = (c \<in> set [CHR 0x09, CHR 0x0A, CHR 0x0B, CHR 0x0C, CHR 0x0D, CHR 0x20, CHR 0xA0])"

definition trim :: "string \<Rightarrow> string" where
  "trim s = rev (dropWhile is_space (rev (dropWhile is_space s)))"

text \<open>
  A string has own properties too: its characters under the decimal index names, and its
  length.  The module is strict code (it is an ES module), where a \<^verbatim>\<open>delete\<close> of such a
  property throws a \<^verbatim>\<open>TypeError\<close>; a \<^verbatim>\<open>for\<close>-\<^verbatim>\<open>in\<close> loop over a string visits the index
  names.  A boolean has no own property.
\<close>

fun index_name :: "nat \<Rightarrow> string" where
  "index_name n =
     (if n < 10 then [''0123456789'' ! n]
      else index_name (n div 10) @ [''0123456789'' ! (n mod 10)])"

definition string_keys :: "string \<Rightarrow> string list" where
  "string_keys s = map index_name [0..<length s]"

text \<open>\<^verbatim>\<open>delete v[k]\<close> throws.\<close>

definition delete_throws :: "jv \<Rightarrow> string \<Rightarrow> bool" where
  "delete_throws v k =
     (case v of JStr s \<Rightarrow> k = ''length'' \<or> k \<in> set (string_keys s) | _ \<Rightarrow> False)"

section \<open>Attribute names\<close>

text \<open>The attribute names are read from the environment; these are their defaults.\<close>

definition idAttribute :: string where "idAttribute = ''_id''"
definition kmdAttribute :: string where "kmdAttribute = ''_kmd''"
definition socialIdentityAttribute :: string where "socialIdentityAttribute = ''_socialIdentity''"

section \<open>Errors, requests and the transport\<close>

datatype active_msg = AlreadyActive | ActiveExists

datatype kinvey_msg = MissingCredentials | UserWithoutId

text \<open>
  \<^verbatim>\<open>ActiveUserError\<close> with the message of each of its two uses, \<^verbatim>\<open>KinveyError\<close> with the
  message of each use, \<^verbatim>\<open>NotFoundError\<close>, the \<^verbatim>\<open>TypeError\<close> the language raises on a
  property access of \<^verbatim>\<open>undefined\<close> or \<^verbatim>\<open>null\<close>, and any other failure of the network
  (time-out, server error) with its text.
\<close>

datatype error =
    ActiveUserError active_msg
  | KinveyError kinvey_msg
  | NotFoundError
  | TypeError
  | NetworkError string

text \<open>
  The requests the module hands to the transport, each with the body it transmits:
  \<^verbatim>\<open>POST /user/:appKey/login\<close>, \<^verbatim>\<open>POST /user/:appKey/_logout\<close>, \<^verbatim>\<open>POST /user/:appKey\<close>,
  the save of the user store, and \<^verbatim>\<open>GET /user/:appKey/_me\<close>.  The custom properties and
  the time-out of the options are passed on as they are and are not part of the model.
\<close>

datatype request =
    LoginReq obj
  | LogoutReq
  | SignupReq obj
  | UpdateReq obj
  | MeReq

text \<open>
  \<^verbatim>\<open>NetworkRequest.execute\<close> is outside this module.  The transport is a parameter: it
  answers a request, given the requests it has served before, with an error (the promise
  is rejected) or with the data of the response.
\<close>

type_synonym transport = "request list \<Rightarrow> request \<Rightarrow> error + obj"

section \<open>The client\<close>

text \<open>
  Modelled from the spec: \<^verbatim>\<open>Client\<close> (\<^verbatim>\<open>getActiveUserData\<close>, \<^verbatim>\<open>setActiveUserData\<close>,
  \<^verbatim>\<open>getActiveSocialIdentity\<close>, \<^verbatim>\<open>setActiveSocialIdentity\<close>) is not part of the sources at
  hand.  Following section 4.1 of the specification the client holds, per context, a
  durable copy of the data of at most one active session, replaced by every set and
  cleared by setting \<^verbatim>\<open>null\<close>; the active social identity is held the same way.  A get
  returns what the last set stored.
\<close>

record client =
  stored_user :: "obj option"
  stored_identity :: "obj option"

definition getActiveUserData :: "client \<Rightarrow> obj option" where
  "getActiveUserData c = stored_user c"

definition setActiveUserData :: "obj option \<Rightarrow> client \<Rightarrow> client" where
  "setActiveUserData d c = c\<lparr>stored_user := d\<rparr>"

definition getActiveSocialIdentity :: "client \<Rightarrow> obj option" where
  "getActiveSocialIdentity c = stored_identity c"

definition setActiveSocialIdentity :: "obj option \<Rightarrow> client \<Rightarrow> client" where
  "setActiveSocialIdentity s c = c\<lparr>stored_identity := s\<rparr>"

section \<open>The world of one call\<close>

text \<open>
  A method of \<^verbatim>\<open>User\<close> reads and writes \<^verbatim>\<open>this.data\<close>, the client of the user, and talks
  to the transport.  The world of a call is these three: the data of the user the method
  is called on, the client, and the requests the transport has received so far.  A
  method returns its outcome together with the world it leaves: a rejected promise (or a
  thrown exception) is \<open>Inl\<close>, a fulfilled one \<open>Inr\<close>.  A user a method returns is given
  by its data; \<open>None\<close> is \<^verbatim>\<open>null\<close>.
\<close>

record world =
  this_data :: obj
  this_client :: client
  requests :: "request list"

type_synonym outcome = "error + obj option"

definition execute :: "transport \<Rightarrow> request \<Rightarrow> world \<Rightarrow> (error + obj) \<times> world" where
  "execute net r w = (net (requests w) r, w\<lparr>requests := requests w @ [r]\<rparr>)"

section \<open>The active user\<close>

text \<open>\<^verbatim>\<open>User.getActiveUser\<close>: a user on the stored data, \<^verbatim>\<open>null\<close> when there is none.\<close>

definition getActiveUser :: "client \<Rightarrow> obj option" where
  "getActiveUser c = (case getActiveUserData c of None \<Rightarrow> None | Some d \<Rightarrow> Some d)"

text \<open>\<^verbatim>\<open>User.setActiveUser\<close>: store the data, then read the active user back.\<close>

definition setActiveUser :: "obj option \<Rightarrow> client \<Rightarrow> obj option \<times> client" where
  "setActiveUser user c = (let c' = setActiveUserData user c in (getActiveUser c', c'))"

definition setAsActiveUser :: "world \<Rightarrow> outcome \<times> world" where
  "setAsActiveUser w =
     (let (u, c') = setActiveUser (Some (this_data w)) (this_client w)
      in (Inr u, w\<lparr>this_client := c'\<rparr>))"

text \<open>\<^verbatim>\<open>isActive\<close>: there is an active user and its \<^verbatim>\<open>_id\<close> is this user's \<^verbatim>\<open>_id\<close>.\<close>

definition isActive :: "client \<Rightarrow> obj \<Rightarrow> bool" where
  "isActive c d =
     (case getActiveUser c of
        None \<Rightarrow> False
      | Some a \<Rightarrow> strict_eq (getp a idAttribute) (getp d idAttribute))"

section \<open>Options\<close>

text \<open>
  The option bag of a call.  \<open>opt_state\<close> is the own property \<^verbatim>\<open>state\<close> (\<open>None\<close> when the
  bag has none), \<open>opt_identity\<close> the internal \<^verbatim>\<open>_identity\<close> that \<^verbatim>\<open>connect\<close> sets for the
  user store, \<open>opt_redirectUri\<close> and \<open>opt_client\<close> what \<^verbatim>\<open>loginWithMIC\<close> adds.
\<close>

record options =
  opt_state :: "jv option"
  opt_identity :: jv
  opt_redirectUri :: jv
  opt_client :: jv

text \<open>
  \<^verbatim>\<open>assign({ state: true }, options).state === true\<close>: the default is \<^verbatim>\<open>true\<close>, an own
  property of the caller's bag replaces it.
\<close>

definition promoteToActive :: "options \<Rightarrow> bool" where
  "promoteToActive options =
     (case opt_state options of None \<Rightarrow> True | Some v \<Rightarrow> strict_eq v (JBool True))"

section \<open>login and logout\<close>

text \<open>
  Modelled from the spec: the promise library (\<^verbatim>\<open>utils/promise\<close>), with the \<^verbatim>\<open>then0\<close> that
  \<^verbatim>\<open>signup\<close>, \<^verbatim>\<open>connect\<close> and \<^verbatim>\<open>disconnect\<close> call, is not part of the sources at hand.
  Following section 5 of the specification a method returns a deferred result whose steps
  run one after the other: \<^verbatim>\<open>then0\<close> is read as \<^verbatim>\<open>then\<close>, the callback runs on the value of
  a fulfilled promise and a rejected promise passes it by.
\<close>

text \<open>\<^verbatim>\<open>if (o[k]) { o[k] = String(o[k]).trim(); }\<close>\<close>

definition trim_attr :: "string \<Rightarrow> obj \<Rightarrow> obj" where
  "trim_attr k ps =
     (if truthy (getp ps k) then setp ps k (JStr (trim (String (getp ps k)))) else ps)"

text \<open>
  The first lines of \<^verbatim>\<open>login\<close>: a first argument that is no object is the user name and
  is wrapped with the password.
\<close>

definition wrap_credentials :: "jv \<Rightarrow> jv \<Rightarrow> obj" where
  "wrap_credentials usernameOrData password =
     (case usernameOrData of
        JObj ps \<Rightarrow> ps
      | _ \<Rightarrow> [(''username'', usernameOrData), (''password'', password)])"

text \<open>
  Without a \<^verbatim>\<open>_socialIdentity\<close> the user name and the password are trimmed.  The result
  is the body of the request.  The trimming writes to the object the caller passed;
  \<^verbatim>\<open>connect\<close> passes the data of the user, which then carries a social identity and is not
  trimmed.
\<close>

definition credentials :: "jv \<Rightarrow> jv \<Rightarrow> obj" where
  "credentials usernameOrData password =
     (let creds = wrap_credentials usernameOrData password
      in if \<not> truthy (getp creds ''_socialIdentity'')
         then trim_attr ''password'' (trim_attr ''username'' creds)
         else creds)"

definition login :: "transport \<Rightarrow> jv \<Rightarrow> jv \<Rightarrow> world \<Rightarrow> outcome \<times> world" where
  "login net usernameOrData password w =
     (let creds = credentials usernameOrData password
      in if isActive (this_client w) (this_data w)
         then (Inl (ActiveUserError AlreadyActive), w)
         else if getActiveUser (this_client w) \<noteq> None
         then (Inl (ActiveUserError ActiveExists), w)
         else if (\<not> truthy (getp creds ''username'')
                  \<or> strict_eq (getp creds ''username'') (JStr [])
                  \<or> \<not> truthy (getp creds ''password'')
                  \<or> strict_eq (getp creds ''password'') (JStr []))
                 \<and> \<not> truthy (getp creds socialIdentityAttribute)
         then (Inl (KinveyError MissingCredentials), w)
         else (case execute net (LoginReq creds) w of
                 (Inl e, w') \<Rightarrow> (Inl e, w')
               | (Inr d, w') \<Rightarrow> setAsActiveUser (w'\<lparr>this_data := d\<rparr>)))"

text \<open>
  \<^verbatim>\<open>logout\<close> returns \<^verbatim>\<open>null\<close> at once when the user is not active.  Otherwise the request
  is sent, its failure is swallowed, the active user is cleared if it is still this
  user, and the promise is fulfilled with this user.
\<close>

definition logout :: "transport \<Rightarrow> world \<Rightarrow> obj option \<times> world" where
  "logout net w =
     (if \<not> isActive (this_client w) (this_data w) then (None, w)
      else (let (r, w1) = execute net LogoutReq w;
                w2 = (if isActive (this_client w1) (this_data w1)
                      then w1\<lparr>this_client := snd (setActiveUser None (this_client w1))\<rparr>
                      else w1)
            in (Some (this_data w2), w2)))"

section \<open>signup\<close>

definition signup :: "transport \<Rightarrow> obj \<Rightarrow> options \<Rightarrow> world \<Rightarrow> outcome \<times> world" where
  "signup net data options w =
     (if promoteToActive options \<and> getActiveUser (this_client w) \<noteq> None
      then (Inl (ActiveUserError ActiveExists), w)
      else (case execute net (SignupReq data) w of
              (Inl e, w1) \<Rightarrow> (Inl e, w1)
            | (Inr d, w1) \<Rightarrow>
                (let w2 = w1\<lparr>this_data := d\<rparr>
                 in if promoteToActive options then setAsActiveUser w2
                    else (Inr (Some (this_data w2)), w2))))"

section \<open>The user store and update\<close>

text \<open>
  The loop of \<^verbatim>\<open>UserStore.save\<close> over the own properties of the social identity: a
  property with a truthy value whose name is not \<^verbatim>\<open>options._identity\<close> is deleted.
\<close>

fun strip_loop :: "jv \<Rightarrow> string list \<Rightarrow> obj \<Rightarrow> obj" where
  "strip_loop ident [] si = si"
| "strip_loop ident (k # ks) si =
     strip_loop ident ks
       (if truthy (getp si k) \<and> \<not> strict_eq ident (JStr k) then delp si k else si)"

text \<open>
  The same loop over a social identity that is a string: every index name is an own
  property with a truthy value (one character), so the first index name that is not
  \<^verbatim>\<open>options._identity\<close> is deleted, and that \<^verbatim>\<open>delete\<close> throws.
\<close>

fun strip_throws :: "jv \<Rightarrow> string list \<Rightarrow> bool" where
  "strip_throws ident [] = False"
| "strip_throws ident (k # ks) =
     (if \<not> strict_eq ident (JStr k) then True else strip_throws ident ks)"

text \<open>
  The block of \<^verbatim>\<open>save\<close> guarded by \<^verbatim>\<open>options._identity\<close>.  The deletes are done on the
  object the user holds, so the user changes.  On a social identity that is a string the
  block throws or does nothing; on a boolean it does nothing.
\<close>

definition strip_identities :: "options \<Rightarrow> obj \<Rightarrow> error + obj" where
  "strip_identities options user =
     (if truthy (opt_identity options)
      then (case getp user socialIdentityAttribute of
              JObj si \<Rightarrow>
                Inr (setp user socialIdentityAttribute
                       (JObj (strip_loop (opt_identity options) (map fst si) si)))
            | JStr s \<Rightarrow>
                if strip_throws (opt_identity options) (string_keys s) then Inl TypeError
                else Inr user
            | _ \<Rightarrow> Inr user)
      else Inr user)"

text \<open>
  Modelled from the spec: \<^verbatim>\<open>NetworkStore.save\<close>, the \<^verbatim>\<open>super.save\<close> of the user store, is
  not part of the sources at hand.  Following section 6 of the specification
  (\<^verbatim>\<open>save(record) -> Promise<record>\<close>, the transport of the update path) it hands the
  record to the transport in one request and is fulfilled with the data of the response.

  \<^verbatim>\<open>save\<close> returns its outcome, the user as the deletes left it and the requests.  What
  is thrown in its callback rejects the promise, and nothing is sent.
\<close>

definition save ::
  "transport \<Rightarrow> obj \<Rightarrow> options \<Rightarrow> request list \<Rightarrow> (error + obj) \<times> obj \<times> request list" where
  "save net user options reqs =
     (if \<not> truthy (getp user idAttribute) then (Inl (KinveyError UserWithoutId), user, reqs)
      else (case strip_identities options user of
              Inl e \<Rightarrow> (Inl e, user, reqs)
            | Inr user' \<Rightarrow> (net reqs (UpdateReq user'), user', reqs @ [UpdateReq user'])))"

text \<open>
  \<^verbatim>\<open>update(data, options)\<close>.  Both callers, \<^verbatim>\<open>connect\<close> and \<^verbatim>\<open>disconnect\<close>, pass the very
  object that is \<^verbatim>\<open>this.data\<close>, so what \<^verbatim>\<open>save\<close> deletes is deleted in the data of the user.
\<close>

definition update :: "transport \<Rightarrow> options \<Rightarrow> world \<Rightarrow> outcome \<times> world" where
  "update net options w =
     (case save net (this_data w) options (requests w) of
        (Inl e, user', reqs') \<Rightarrow> (Inl e, w\<lparr>this_data := user', requests := reqs'\<rparr>)
      | (Inr d, user', reqs') \<Rightarrow>
          (let w' = w\<lparr>this_data := d, requests := reqs'\<rparr>
           in if isActive (this_client w') (this_data w') then setAsActiveUser w'
              else (Inr (Some (this_data w')), w')))"

section \<open>me\<close>

text \<open>
  Modelled from the spec: \<^verbatim>\<open>Metadata\<close> is not part of the sources at hand.  Following
  section 3 of the specification the metadata of a user is the record under \<^verbatim>\<open>_kmd\<close>,
  and the auth token is its \<^verbatim>\<open>authtoken\<close>.
\<close>

definition metadata :: "obj \<Rightarrow> obj" where
  "metadata d = (case getp d kmdAttribute of JObj kmd \<Rightarrow> kmd | _ \<Rightarrow> [])"

definition authtoken :: "obj \<Rightarrow> jv" where
  "authtoken d = getp (metadata d) ''authtoken''"

definition set_authtoken :: "jv \<Rightarrow> obj \<Rightarrow> obj" where
  "set_authtoken t d = setp d kmdAttribute (JObj (setp (metadata d) ''authtoken'' t))"

definition me :: "transport \<Rightarrow> world \<Rightarrow> outcome \<times> world" where
  "me net w =
     (case execute net MeReq w of
        (Inl e, w1) \<Rightarrow> (Inl e, w1)
      | (Inr d, w1) \<Rightarrow>
          (let w2 = w1\<lparr>this_data := d\<rparr>;
               w3 = (if \<not> truthy (authtoken (this_data w2))
                     then (case getActiveUser (this_client w2) of
                             Some activeUser \<Rightarrow>
                               w2\<lparr>this_data := set_authtoken (authtoken activeUser) (this_data w2)\<rparr>
                           | None \<Rightarrow> w2)
                     else w2)
           in setAsActiveUser w3))"

section \<open>connect and disconnect\<close>

text \<open>
  The first lines of \<^verbatim>\<open>connect\<close> put the token under the identity in the data of the
  user, before any promise is made.  The module is strict code: the assignment of a
  property to a truthy value that is no object throws.
\<close>

definition merge_identity :: "string \<Rightarrow> jv \<Rightarrow> obj \<Rightarrow> error + obj" where
  "merge_identity identity token data =
     (let socialIdentity = (if truthy (getp data socialIdentityAttribute)
                            then getp data socialIdentityAttribute else JObj [])
      in case socialIdentity of
           JObj si \<Rightarrow> Inr (setp data socialIdentityAttribute (JObj (setp si identity token)))
         | _ \<Rightarrow> Inl TypeError)"

text \<open>The first callback: an update scoped to the identity when active, a login otherwise.\<close>

definition connect_attempt :: "transport \<Rightarrow> string \<Rightarrow> options \<Rightarrow> world \<Rightarrow> outcome \<times> world" where
  "connect_attempt net identity options w =
     (if isActive (this_client w) (this_data w)
      then update net (options\<lparr>opt_identity := JStr identity\<rparr>) w
      else login net (JObj (this_data w)) JNull w)"

text \<open>
  The last callback records the active social identity.  \<^verbatim>\<open>this._socialIdentity[identity]\<close>
  throws when the data of the user has no social identity.  The token recorded is the
  entry of an object; a social identity that is no object has no entry.
\<close>

definition connect_finish :: "string \<Rightarrow> options \<Rightarrow> world \<Rightarrow> outcome \<times> world" where
  "connect_finish identity options w =
     (case getp (this_data w) socialIdentityAttribute of
        JUndefined \<Rightarrow> (Inl TypeError, w)
      | JNull \<Rightarrow> (Inl TypeError, w)
      | v \<Rightarrow>
          (Inr (Some (this_data w)),
           w\<lparr>this_client :=
               setActiveSocialIdentity
                 (Some [(''identity'', JStr identity),
                        (''token'', (case v of JObj si \<Rightarrow> getp si identity | _ \<Rightarrow> JUndefined)),
                        (''redirectUri'', opt_redirectUri options),
                        (''client'', opt_client options)])
                 (this_client w)\<rparr>))"

text \<open>
  \<^verbatim>\<open>connect\<close> calls itself after a signup, and nothing in it bounds the number of rounds:
  the first argument is the number of rounds allowed, and \<open>None\<close> is a call that needs
  more.  When the attempt fails the data of the user is still the object the first lines
  wrote to, so the signup sends \<open>this_data\<close> of the world the attempt left.  The
  \<^verbatim>\<open>_identity\<close> that the update writes into the caller's options is read by the user store
  only, and every update of \<^verbatim>\<open>connect\<close> writes it anew, so the options are passed on as
  they were given.
\<close>

fun connect ::
  "nat \<Rightarrow> transport \<Rightarrow> string \<Rightarrow> jv \<Rightarrow> options \<Rightarrow> world \<Rightarrow> (outcome \<times> world) option" where
  "connect 0 net identity token options w = None"
| "connect (Suc n) net identity token options w =
     (case merge_identity identity token (this_data w) of
        Inl e \<Rightarrow> Some (Inl e, w)
      | Inr data \<Rightarrow>
          (case connect_attempt net identity options (w\<lparr>this_data := data\<rparr>) of
             (Inr u, w1) \<Rightarrow> Some (connect_finish identity options w1)
           | (Inl NotFoundError, w1) \<Rightarrow>
               (case signup net (this_data w1) options w1 of
                  (Inl e, w2) \<Rightarrow> Some (Inl e, w2)
                | (Inr u, w2) \<Rightarrow>
                    (case connect n net identity token options w2 of
                       None \<Rightarrow> None
                     | Some (Inl e, w3) \<Rightarrow> Some (Inl e, w3)
                     | Some (Inr u', w3) \<Rightarrow> Some (connect_finish identity options w3)))
           | (Inl e, w1) \<Rightarrow> Some (Inl e, w1)))"

text \<open>
  The first lines of \<^verbatim>\<open>disconnect\<close> delete the identity from the social identity in the
  data of the user.  On a social identity that is no object the \<^verbatim>\<open>delete\<close> changes nothing.
\<close>

definition remove_identity :: "string \<Rightarrow> obj \<Rightarrow> obj" where
  "remove_identity identity data =
     (let socialIdentity = (if truthy (getp data socialIdentityAttribute)
                            then getp data socialIdentityAttribute else JObj [])
      in setp data socialIdentityAttribute
           (case socialIdentity of JObj si \<Rightarrow> JObj (delp si identity) | v \<Rightarrow> v))"

text \<open>\<^verbatim>\<open>data[socialIdentityAttribute] || {}\<close>\<close>

definition identities :: "obj \<Rightarrow> jv" where
  "identities data =
     (if truthy (getp data socialIdentityAttribute)
      then getp data socialIdentityAttribute else JObj [])"

text \<open>
  \<^verbatim>\<open>disconnect\<close>: the \<^verbatim>\<open>delete\<close> of the first lines throws when the social identity is a
  string and the identity names a character or the length of it; nothing is written
  then.  Otherwise: without an \<^verbatim>\<open>_id\<close> nothing is sent; then the active social identity is
  read and its \<^verbatim>\<open>identity\<close> compared.  The read of \<^verbatim>\<open>identity\<close> on \<^verbatim>\<open>null\<close> throws.
\<close>

definition disconnect :: "transport \<Rightarrow> string \<Rightarrow> options \<Rightarrow> world \<Rightarrow> outcome \<times> world" where
  "disconnect net identity options w =
     (if delete_throws (identities (this_data w)) identity then (Inl TypeError, w)
      else
       (let w0 = w\<lparr>this_data := remove_identity identity (this_data w)\<rparr>;
            (r, w1) = (if \<not> truthy (getp (this_data w0) idAttribute)
                       then (Inr (Some (this_data w0)), w0)
                       else update net options w0)
        in case r of
             Inl e \<Rightarrow> (Inl e, w1)
           | Inr u \<Rightarrow>
               (case getActiveSocialIdentity (this_client w1) of
                  None \<Rightarrow> (Inl TypeError, w1)
                | Some activeSocialIdentity \<Rightarrow>
                    (Inr (Some (this_data w1)),
                     if strict_eq (getp activeSocialIdentity ''identity'') (JStr identity)
                     then w1\<lparr>this_client := setActiveSocialIdentity None (this_client w1)\<rparr>
                     else w1))))"

section \<open>The words of the specification\<close>

text \<open>
  A value is supplied when it is given and is not empty after trimming.  Credentials
  lack what a login needs when they supply neither a user name together with a password
  nor a social identity.
\<close>

definition supplied :: "jv \<Rightarrow> bool" where
  "supplied v = (truthy v \<and> trim (String v) \<noteq> [])"

definition lacks_credentials :: "jv \<Rightarrow> jv \<Rightarrow> bool" where
  "lacks_credentials usernameOrData password =
     (let creds = wrap_credentials usernameOrData password
      in \<not> (supplied (getp creds ''username'') \<and> supplied (getp creds ''password''))
         \<and> \<not> truthy (getp creds ''_socialIdentity''))"

section \<open>Example users, clients and transports\<close>

definition alice :: obj where
  "alice = [(''_id'', JStr ''u1''),
            (''_kmd'', JObj [(''authtoken'', JStr ''T1'')]),
            (''username'', JStr ''alice'')]"

definition bob :: obj where
  "bob = [(''username'', JStr ''bob''), (''password'', JStr ''pw'')]"

definition client_none :: client where
  "client_none = \<lparr>stored_user = None, stored_identity = None\<rparr>"

definition client_alice :: client where
  "client_alice = \<lparr>stored_user = Some alice, stored_identity = None\<rparr>"

text \<open>A new user on a context without an active user, and on one where alice is active.\<close>

definition world_fresh :: world where
  "world_fresh = \<lparr>this_data = [], this_client = client_none, requests = []\<rparr>"

definition world_other :: world where
  "world_other = \<lparr>this_data = [], this_client = client_alice, requests = []\<rparr>"

text \<open>Alice herself, active.\<close>

definition world_alice :: world where
  "world_alice = \<lparr>this_data = alice, this_client = client_alice, requests = []\<rparr>"

definition no_options :: options where
  "no_options = \<lparr>opt_state = None, opt_identity = JUndefined,
                  opt_redirectUri = JUndefined, opt_client = JUndefined\<rparr>"

text \<open>A transport whose every request times out.\<close>

definition net_timeout :: transport where
  "net_timeout reqs r = Inl (NetworkError ''timeout'')"

text \<open>
  A backend that accepts: a login and a signup answer with the body under the id
  \<^verbatim>\<open>u7\<close>, an update answers with the body, the profile is a record without auth token.
\<close>

definition net_accept :: transport where
  "net_accept reqs r =
     (case r of
        LoginReq body \<Rightarrow> Inr (setp body ''_id'' (JStr ''u7''))
      | SignupReq body \<Rightarrow> Inr (setp body ''_id'' (JStr ''u7''))
      | UpdateReq body \<Rightarrow> Inr body
      | MeReq \<Rightarrow> Inr [(''_id'', JStr ''u1''), (''username'', JStr ''alice'')]
      | LogoutReq \<Rightarrow> Inr [])"

text \<open>Bob after his signup at the accepting backend, and the world the signup leaves.\<close>

definition bob_signed :: obj where
  "bob_signed = [(''username'', JStr ''bob''), (''password'', JStr ''pw''), (''_id'', JStr ''u7'')]"

definition world_signed :: world where
  "world_signed =
     \<lparr>this_data = bob_signed,
      this_client = \<lparr>stored_user = Some bob_signed, stored_identity = None\<rparr>,
      requests = [SignupReq bob]\<rparr>"

text \<open>A token of an identity provider, and credentials that carry it.\<close>

definition fb_token :: jv where
  "fb_token = JObj [(''access_token'', JStr ''fb-1'')]"

definition fb_credentials :: obj where
  "fb_credentials = [(''username'', JStr '' bob ''),
                     (''_socialIdentity'', JObj [(''facebook'', fb_token)])]"

text \<open>
  Alice with a linked google identity and an identity without token; she is the active
  user of her context.
\<close>

definition alice_google :: obj where
  "alice_google = [(''_id'', JStr ''u1''),
                   (''_socialIdentity'', JObj [(''google'', JStr ''g-1''), (''twitter'', JNull)])]"

definition world_google :: world where
  "world_google =
     \<lparr>this_data = alice_google,
      this_client = \<lparr>stored_user = Some alice_google, stored_identity = None\<rparr>,
      requests = []\<rparr>"

text \<open>
  The data of that alice after the facebook token is merged, the body of the update that
  is scoped to facebook, and her data without the google entry.
\<close>

definition alice_merged :: obj where
  "alice_merged =
     [(''_id'', JStr ''u1''),
      (''_socialIdentity'',
       JObj [(''google'', JStr ''g-1''), (''twitter'', JNull), (''facebook'', fb_token)])]"

definition alice_scoped :: obj where
  "alice_scoped =
     [(''_id'', JStr ''u1''),
      (''_socialIdentity'', JObj [(''twitter'', JNull), (''facebook'', fb_token)])]"

definition alice_no_google :: obj where
  "alice_no_google = [(''_id'', JStr ''u1''), (''_socialIdentity'', JObj [(''twitter'', JNull)])]"

text \<open>
  A new user on a context whose stored active user has no \<^verbatim>\<open>_id\<close>, and alice with a social
  identity that is a string.
\<close>

definition world_noid :: world where
  "world_noid =
     \<lparr>this_data = [],
      this_client = \<lparr>stored_user = Some bob, stored_identity = None\<rparr>,
      requests = []\<rparr>"

definition world_text :: world where
  "world_text =
     \<lparr>this_data = [(''_id'', JStr ''u1''), (''_socialIdentity'', JStr ''ab'')],
      this_client = client_alice,
      requests = []\<rparr>"

text \<open>
  A user that exists only locally: identities but no \<^verbatim>\<open>_id\<close>, on a context without an
  active social identity, and on one whose active social identity is facebook.
\<close>

definition local_user :: obj where
  "local_user = [(''_socialIdentity'', JObj [(''facebook'', fb_token), (''google'', JStr ''g-1'')])]"

definition world_local :: world where
  "world_local = \<lparr>this_data = local_user, this_client = client_none, requests = []\<rparr>"

definition world_local_fb :: world where
  "world_local_fb =
     \<lparr>this_data = local_user,
      this_client = \<lparr>stored_user = None,
                     stored_identity = Some [(''identity'', JStr ''facebook''), (''token'', fb_token)]\<rparr>,
      requests = []\<rparr>"

section \<open>Counting signups\<close>

fun is_signup :: "request \<Rightarrow> bool" where
  "is_signup (SignupReq body) = True"
| "is_signup r = False"

definition signups :: "request list \<Rightarrow> nat" where
  "signups reqs = length (filter is_signup reqs)"

text \<open>A backend that finds no user at a login once, and accepts after that.\<close>

definition net_once :: transport where
  "net_once reqs r =
     (case r of
        LoginReq body \<Rightarrow> Inl NotFoundError
      | SignupReq body \<Rightarrow> Inr (setp body ''_id'' (JStr ''u7''))
      | UpdateReq body \<Rightarrow> Inr body
      | _ \<Rightarrow> Inl (NetworkError ''unexpected''))"

text \<open>A backend that finds no user at a login and refuses everything else.\<close>

definition net_refuse :: transport where
  "net_refuse reqs r =
     (case r of
        LoginReq body \<Rightarrow> Inl NotFoundError
      | _ \<Rightarrow> Inl (NetworkError ''refused''))"

text \<open>The data of a new user after the token is merged, and after the signup.\<close>

definition fb_user :: obj where
  "fb_user = [(''_socialIdentity'', JObj [(''facebook'', fb_token)])]"

definition fb_user_signed :: obj where
  "fb_user_signed = [(''_socialIdentity'', JObj [(''facebook'', fb_token)]), (''_id'', JStr ''u7'')]"

definition world_fb_login :: world where
  "world_fb_login = \<lparr>this_data = fb_user, this_client = client_none, requests = [LoginReq fb_user]\<rparr>"

definition world_fb_signed :: world where
  "world_fb_signed =
     \<lparr>this_data = fb_user_signed,
      this_client = \<lparr>stored_user = Some fb_user_signed, stored_identity = None\<rparr>,
      requests = [LoginReq fb_user, SignupReq fb_user]\<rparr>"

text \<open>The world after the whole recovery at the backend that finds no user once.\<close>

definition world_fb_connected :: world where
  "world_fb_connected =
     \<lparr>this_data = fb_user_signed,
      this_client =
        \<lparr>stored_user = Some fb_user_signed,
         stored_identity = Some [(''identity'', JStr ''facebook''), (''token'', fb_token),
                                 (''redirectUri'', JUndefined), (''client'', JUndefined)]\<rparr>,
      requests = [LoginReq fb_user, SignupReq fb_user, UpdateReq fb_user_signed]\<rparr>"

section \<open>Properties of the values\<close>

lemma getp_setp: "getp (setp ps k v) k' = (if k' = k then v else getp ps k')"
  by (simp add: getp_def setp_def update_conv')

lemma getp_delp: "getp (delp ps k) k' = (if k' = k then JUndefined else getp ps k')"
  by (simp add: getp_def delp_def delete_conv')

lemma strict_eq_prim: "(\<forall>ps. y \<noteq> JObj ps) \<Longrightarrow> strict_eq x y = (x = y)"
  by (cases x; cases y) auto

lemma getp_trim_attr:
  "getp (trim_attr k ps) k' =
     (if k' = k \<and> truthy (getp ps k) then JStr (trim (String (getp ps k))) else getp ps k')"
  by (simp add: trim_attr_def getp_setp)

lemmas attribute_defs =
  idAttribute_def kmdAttribute_def socialIdentityAttribute_def

lemmas client_defs =
  getActiveUser_def getActiveUserData_def setActiveUser_def setActiveUserData_def
  getActiveSocialIdentity_def setActiveSocialIdentity_def

lemmas example_defs =
  alice_def bob_def client_none_def client_alice_def world_fresh_def world_other_def
  world_alice_def no_options_def net_timeout_def net_accept_def

lemmas value_defs =
  getp_def setp_def delp_def trim_def is_space_def trim_attr_def

section \<open>The active user\<close>

lemma setAsActiveUser_eq:
  "setAsActiveUser w =
     (Inr (Some (this_data w)),
      w\<lparr>this_client := (this_client w)\<lparr>stored_user := Some (this_data w)\<rparr>\<rparr>)"
  by (simp add: setAsActiveUser_def client_defs)

text \<open>
  C10.  \<^verbatim>\<open>isActive\<close> is true exactly when the context has a stored active user whose
  \<^verbatim>\<open>_id\<close> is identical (\<^verbatim>\<open>===\<close>) to the \<^verbatim>\<open>_id\<close> of this user; for an \<^verbatim>\<open>_id\<close> that is no object
  that is equality of the two values.  Which object asks does not matter: any two users
  with the id of the active user are both active, and a new user, whose \<^verbatim>\<open>_id\<close> is
  \<^verbatim>\<open>undefined\<close>, is active whenever the stored record has no \<^verbatim>\<open>_id\<close>.
\<close>

theorem isActive_by_id:
  "(isActive c d \<longleftrightarrow>
      (\<exists>a. getActiveUser c = Some a \<and> strict_eq (getp a idAttribute) (getp d idAttribute)))
   \<and> ((\<forall>ps. getp d idAttribute \<noteq> JObj ps) \<longrightarrow>
        (isActive c d \<longleftrightarrow>
           (\<exists>a. getActiveUser c = Some a \<and> getp a idAttribute = getp d idAttribute)))
   \<and> (getActiveUser c = Some a \<and> getp a idAttribute = JStr s
        \<and> getp d1 idAttribute = JStr s \<and> getp d2 idAttribute = JStr s
        \<longrightarrow> isActive c d1 \<and> isActive c d2)
   \<and> (getActiveUser c = Some a \<and> getp a idAttribute = JUndefined \<longrightarrow> isActive c [])"
proof -
  have 1: "isActive c d \<longleftrightarrow>
      (\<exists>a. getActiveUser c = Some a \<and> strict_eq (getp a idAttribute) (getp d idAttribute))" for d
    by (simp add: isActive_def split: option.splits)
  have 2: "(\<forall>ps. getp d idAttribute \<noteq> JObj ps) \<longrightarrow>
        (isActive c d \<longleftrightarrow>
           (\<exists>a. getActiveUser c = Some a \<and> getp a idAttribute = getp d idAttribute))"
    unfolding 1 by (simp add: strict_eq_prim)
  have 3: "getActiveUser c = Some a \<and> getp a idAttribute = JStr s
        \<and> getp d1 idAttribute = JStr s \<and> getp d2 idAttribute = JStr s
        \<longrightarrow> isActive c d1 \<and> isActive c d2"
    unfolding 1 by simp
  have 4: "getActiveUser c = Some a \<and> getp a idAttribute = JUndefined \<longrightarrow> isActive c []"
    unfolding 1 by (simp add: getp_def)
  from 1 2 3 4 show ?thesis by blast
qed

theorem isActive_by_id_witness:
  "getActiveUser client_alice = Some alice
   \<and> getp alice idAttribute = JStr ''u1''
   \<and> getp [(''_id'', JStr ''u1'')] idAttribute = JStr ''u1''
   \<and> getp [(''_id'', JStr ''u1''), (''username'', JStr ''eve'')] idAttribute = JStr ''u1''
   \<and> isActive client_alice [(''_id'', JStr ''u1'')]
   \<and> isActive client_alice [(''_id'', JStr ''u1''), (''username'', JStr ''eve'')]
   \<and> \<not> isActive client_alice []
   \<and> getActiveUser (client_none\<lparr>stored_user := Some bob\<rparr>) = Some bob
   \<and> getp bob idAttribute = JUndefined
   \<and> isActive (client_none\<lparr>stored_user := Some bob\<rparr>) []"
  using isActive_by_id [of client_alice "[(''_id'', JStr ''u1'')]" alice "''u1''"
          "[(''_id'', JStr ''u1'')]" "[(''_id'', JStr ''u1''), (''username'', JStr ''eve'')]"]
        isActive_by_id [of "client_none\<lparr>stored_user := Some bob\<rparr>" "[]" bob]
        isActive_by_id [of client_alice "[]"]
  by (simp add: client_defs example_defs attribute_defs getp_def)

section \<open>login, signup and the active user\<close>

lemma login_active:
  "getActiveUser (this_client w) \<noteq> None \<Longrightarrow>
   login net u p w =
     (Inl (ActiveUserError (if isActive (this_client w) (this_data w)
                            then AlreadyActive else ActiveExists)), w)"
  by (simp add: login_def Let_def)

lemma signup_success_active:
  "promoteToActive options \<Longrightarrow> signup net data options w = (Inr u, w') \<Longrightarrow>
   getActiveUser (this_client w') = Some (this_data w')"
  by (auto simp: signup_def execute_def setAsActiveUser_eq getActiveUser_def
        getActiveUserData_def Let_def split: if_splits sum.splits)

text \<open>
  C1.  On every context \<^verbatim>\<open>login\<close> fails with \<^verbatim>\<open>ActiveUserError\<close> (the active-session
  conflict), before the transport is reached, when this user is already the active user
  or any other user is active; a \<^verbatim>\<open>signup\<close> that is to promote (\<^verbatim>\<open>options.state\<close>, \<^verbatim>\<open>true\<close>
  by default) fails the same way when an active user exists; and after a \<^verbatim>\<open>signup\<close> that
  succeeded and promoted, a \<^verbatim>\<open>login\<close> of any user on that context fails with it.
\<close>

theorem active_session_conflict:
  "(getActiveUser (this_client w) \<noteq> None \<longrightarrow>
      login net u p w =
        (Inl (ActiveUserError (if isActive (this_client w) (this_data w)
                               then AlreadyActive else ActiveExists)), w))
   \<and> (promoteToActive options \<and> getActiveUser (this_client w) \<noteq> None \<longrightarrow>
      signup net data options w = (Inl (ActiveUserError ActiveExists), w))
   \<and> (promoteToActive options \<and> signup net data options w = (Inr r, w') \<and>
      this_client w'' = this_client w' \<longrightarrow>
      (\<exists>m. login net' u p w'' = (Inl (ActiveUserError m), w'')))"
proof (intro conjI impI)
  assume "getActiveUser (this_client w) \<noteq> None"
  then show "login net u p w =
        (Inl (ActiveUserError (if isActive (this_client w) (this_data w)
                               then AlreadyActive else ActiveExists)), w)"
    by (rule login_active)
next
  assume "promoteToActive options \<and> getActiveUser (this_client w) \<noteq> None"
  then show "signup net data options w = (Inl (ActiveUserError ActiveExists), w)"
    by (simp add: signup_def)
next
  assume a: "promoteToActive options \<and> signup net data options w = (Inr r, w') \<and>
      this_client w'' = this_client w'"
  then have "getActiveUser (this_client w'') \<noteq> None"
    using signup_success_active[of options net data w r w'] by simp
  then show "\<exists>m. login net' u p w'' = (Inl (ActiveUserError m), w'')"
    using login_active by blast
qed

theorem active_session_conflict_witness:
  "getActiveUser (this_client world_other) \<noteq> None
   \<and> promoteToActive no_options
   \<and> login net_accept (JStr ''bob'') (JStr ''pw'') world_other
       = (Inl (ActiveUserError ActiveExists), world_other)
   \<and> login net_accept (JStr ''alice'') (JStr ''pw'') world_alice
       = (Inl (ActiveUserError AlreadyActive), world_alice)
   \<and> signup net_accept bob no_options world_other
       = (Inl (ActiveUserError ActiveExists), world_other)
   \<and> signup net_accept bob no_options world_fresh = (Inr (Some bob_signed), world_signed)
   \<and> (\<exists>m. login net_accept (JStr ''bob'') (JStr ''pw'') world_signed
            = (Inl (ActiveUserError m), world_signed))"
proof -
  have s: "signup net_accept bob no_options world_fresh = (Inr (Some bob_signed), world_signed)"
    by (simp add: signup_def execute_def setAsActiveUser_eq promoteToActive_def
          client_defs example_defs bob_signed_def world_signed_def setp_def)
  have p: "promoteToActive no_options"
    by (simp add: promoteToActive_def no_options_def)
  have a: "getActiveUser (this_client world_other) \<noteq> None"
    by (simp add: client_defs example_defs)
  have b: "getActiveUser (this_client world_alice) \<noteq> None"
    by (simp add: client_defs example_defs)
  have i: "isActive (this_client world_alice) (this_data world_alice)"
    "\<not> isActive (this_client world_other) (this_data world_other)"
    by (simp_all add: isActive_def client_defs example_defs attribute_defs getp_def)
  show ?thesis
    using active_session_conflict [of world_other net_accept "JStr ''bob''" "JStr ''pw''"
            no_options bob "Some bob_signed" world_other world_other net_accept]
          active_session_conflict [of world_alice net_accept "JStr ''alice''" "JStr ''pw''"
            no_options bob "Some bob_signed" world_alice world_alice net_accept]
          active_session_conflict [of world_fresh net_accept "JStr ''bob''" "JStr ''pw''"
            no_options bob "Some bob_signed" world_signed world_signed net_accept]
          s p a b i
    by simp
qed

lemma lacks_check:
  assumes "lacks_credentials u p"
  shows "(\<not> truthy (getp (credentials u p) ''username'')
          \<or> strict_eq (getp (credentials u p) ''username'') (JStr [])
          \<or> \<not> truthy (getp (credentials u p) ''password'')
          \<or> strict_eq (getp (credentials u p) ''password'') (JStr []))
         \<and> \<not> truthy (getp (credentials u p) socialIdentityAttribute)"
  using assms
  by (auto simp: lacks_credentials_def credentials_def Let_def getp_trim_attr supplied_def
        socialIdentityAttribute_def)

text \<open>
  C3, as the code has it.  When the credentials supply neither a user name with a
  password (both not empty after trimming) nor a social identity, \<^verbatim>\<open>login\<close> fails and the
  transport is not invoked.  The failure is the \<^verbatim>\<open>KinveyError\<close> for missing credentials
  (the specification's InvalidCredentials) when the context has no active user; the two
  checks for an active user come first and fail with \<^verbatim>\<open>ActiveUserError\<close>.
\<close>

theorem login_lacking_credentials:
  "lacks_credentials u p \<Longrightarrow>
   login net u p w =
     (Inl (if isActive (this_client w) (this_data w) then ActiveUserError AlreadyActive
           else if getActiveUser (this_client w) \<noteq> None then ActiveUserError ActiveExists
           else KinveyError MissingCredentials), w)"
  using lacks_check[of u p] by (simp add: login_def Let_def)

theorem login_lacking_credentials_witness:
  "lacks_credentials (JStr '' '') JUndefined
   \<and> login net_accept (JStr '' '') JUndefined world_fresh
       = (Inl (KinveyError MissingCredentials), world_fresh)"
proof -
  have l: "lacks_credentials (JStr '' '') JUndefined"
    by (simp add: lacks_credentials_def wrap_credentials_def supplied_def value_defs)
  have "\<not> isActive (this_client world_fresh) (this_data world_fresh)"
    "getActiveUser (this_client world_fresh) = None"
    by (simp_all add: isActive_def client_defs example_defs)
  then show ?thesis
    using l login_lacking_credentials [OF l, of net_accept world_fresh] by simp
qed

text \<open>
  C3 as it is stated fails: with an active user on the context, credentials that lack
  everything are refused with \<^verbatim>\<open>ActiveUserError\<close>, not with the error for the credentials.
\<close>

theorem login_invalid_credentials_counterexample:
  "lacks_credentials (JStr '' '') JUndefined
   \<and> login net_accept (JStr '' '') JUndefined world_other
       = (Inl (ActiveUserError ActiveExists), world_other)
   \<and> fst (login net_accept (JStr '' '') JUndefined world_other)
       \<noteq> Inl (KinveyError MissingCredentials)"
  by (simp add: lacks_credentials_def wrap_credentials_def supplied_def value_defs
        login_def isActive_def client_defs example_defs attribute_defs)

section \<open>logout\<close>

text \<open>
  C4.  \<^verbatim>\<open>logout\<close> on a user that is not the active user returns \<^verbatim>\<open>null\<close> and leaves the
  world as it is: no request is issued.  On the active user it issues the logout
  request and, whatever the transport answers, clears the active user of the context and
  returns this user.
\<close>

theorem logout_spec:
  "(\<not> isActive (this_client w) (this_data w) \<longrightarrow> logout net w = (None, w))
   \<and> (isActive (this_client w) (this_data w) \<longrightarrow>
        logout net w =
          (Some (this_data w),
           w\<lparr>this_client := (this_client w)\<lparr>stored_user := None\<rparr>,
             requests := requests w @ [LogoutReq]\<rparr>))"
  by (simp add: logout_def execute_def setActiveUser_def setActiveUserData_def Let_def)

theorem logout_spec_witness:
  "\<not> isActive (this_client world_other) (this_data world_other)
   \<and> logout net_accept world_other = (None, world_other)
   \<and> isActive (this_client world_alice) (this_data world_alice)
   \<and> logout net_timeout world_alice
       = (Some alice, \<lparr>this_data = alice, this_client = client_none, requests = [LogoutReq]\<rparr>)
   \<and> logout net_accept world_alice
       = (Some alice, \<lparr>this_data = alice, this_client = client_none, requests = [LogoutReq]\<rparr>)"
proof -
  have i: "isActive (this_client world_alice) (this_data world_alice)"
    "\<not> isActive (this_client world_other) (this_data world_other)"
    by (simp_all add: isActive_def client_defs example_defs attribute_defs getp_def)
  show ?thesis
    using i logout_spec [of world_other net_accept] logout_spec [of world_alice net_timeout]
      logout_spec [of world_alice net_accept]
    by (simp add: world_alice_def client_alice_def client_none_def)
qed

section \<open>The body of a login\<close>

lemma credentials_social:
  "truthy (getp (wrap_credentials u p) ''_socialIdentity'') \<Longrightarrow>
   credentials u p = wrap_credentials u p"
  by (simp add: credentials_def)

lemma credentials_plain:
  assumes "\<not> truthy (getp (wrap_credentials u p) ''_socialIdentity'')"
  shows "getp (credentials u p) k =
           (if k = ''username'' \<and> truthy (getp (wrap_credentials u p) ''username'')
            then JStr (trim (String (getp (wrap_credentials u p) ''username'')))
            else if k = ''password'' \<and> truthy (getp (wrap_credentials u p) ''password'')
            then JStr (trim (String (getp (wrap_credentials u p) ''password'')))
            else getp (wrap_credentials u p) k)"
  using assms by (simp add: credentials_def getp_trim_attr)

lemma login_requests:
  "requests (snd (login net u p w)) = requests w
   \<or> (requests (snd (login net u p w)) = requests w @ [LoginReq (credentials u p)]
      \<and> (truthy (getp (credentials u p) socialIdentityAttribute)
         \<or> truthy (getp (credentials u p) ''username'')
           \<and> truthy (getp (credentials u p) ''password'')))"
  by (auto simp: login_def execute_def setAsActiveUser_eq Let_def split: sum.splits)

lemma login_transmits:
  assumes "getActiveUser (this_client w) = None" and "\<not> lacks_credentials u p"
  shows "requests (snd (login net u p w)) = requests w @ [LoginReq (credentials u p)]"
proof -
  have "\<not> isActive (this_client w) (this_data w)"
    using assms(1) by (simp add: isActive_def)
  moreover have "\<not> ((\<not> truthy (getp (credentials u p) ''username'')
          \<or> strict_eq (getp (credentials u p) ''username'') (JStr [])
          \<or> \<not> truthy (getp (credentials u p) ''password'')
          \<or> strict_eq (getp (credentials u p) ''password'') (JStr []))
         \<and> \<not> truthy (getp (credentials u p) socialIdentityAttribute))"
    using assms(2)
    by (auto simp: lacks_credentials_def credentials_def Let_def getp_trim_attr supplied_def
          socialIdentityAttribute_def)
  ultimately show ?thesis
    using assms(1)
    by (auto simp: login_def execute_def setAsActiveUser_eq Let_def split: sum.splits)
qed

text \<open>
  C7.  A login transmits at most one request.  When the credentials carry no social
  identity the body it transmits has the user name and the password trimmed of
  surrounding white space and every other property as given; credentials that carry a
  social identity are transmitted as they were given.  The request is transmitted
  whenever the context has no active user and the credentials do not lack what a login
  needs.
\<close>

theorem login_transmits_trimmed:
  "(requests (snd (login net u p w)) = requests w
    \<or> (\<exists>body. requests (snd (login net u p w)) = requests w @ [LoginReq body]
         \<and> (truthy (getp (wrap_credentials u p) ''_socialIdentity'')
              \<longrightarrow> body = wrap_credentials u p)
         \<and> (\<not> truthy (getp (wrap_credentials u p) ''_socialIdentity'') \<longrightarrow>
              getp body ''username'' = JStr (trim (String (getp (wrap_credentials u p) ''username'')))
              \<and> getp body ''password'' = JStr (trim (String (getp (wrap_credentials u p) ''password'')))
              \<and> (\<forall>k. k \<noteq> ''username'' \<and> k \<noteq> ''password''
                     \<longrightarrow> getp body k = getp (wrap_credentials u p) k))))
   \<and> (getActiveUser (this_client w) = None \<and> \<not> lacks_credentials u p \<longrightarrow>
        requests (snd (login net u p w)) = requests w @ [LoginReq (credentials u p)])"
proof (intro conjI impI)
  show "requests (snd (login net u p w)) = requests w
    \<or> (\<exists>body. requests (snd (login net u p w)) = requests w @ [LoginReq body]
         \<and> (truthy (getp (wrap_credentials u p) ''_socialIdentity'')
              \<longrightarrow> body = wrap_credentials u p)
         \<and> (\<not> truthy (getp (wrap_credentials u p) ''_socialIdentity'') \<longrightarrow>
              getp body ''username'' = JStr (trim (String (getp (wrap_credentials u p) ''username'')))
              \<and> getp body ''password'' = JStr (trim (String (getp (wrap_credentials u p) ''password'')))
              \<and> (\<forall>k. k \<noteq> ''username'' \<and> k \<noteq> ''password''
                     \<longrightarrow> getp body k = getp (wrap_credentials u p) k)))"
  proof (cases "requests (snd (login net u p w)) = requests w")
    case True
    then show ?thesis by simp
  next
    case False
    with login_requests [of net u p w]
    have sent: "requests (snd (login net u p w)) = requests w @ [LoginReq (credentials u p)]"
      and ok: "truthy (getp (credentials u p) socialIdentityAttribute)
         \<or> truthy (getp (credentials u p) ''username'')
           \<and> truthy (getp (credentials u p) ''password'')"
      by auto
    show ?thesis
    proof (cases "truthy (getp (wrap_credentials u p) ''_socialIdentity'')")
      case True
      with sent show ?thesis by (simp add: credentials_social)
    next
      case plain: False
      then have nosi: "\<not> truthy (getp (credentials u p) socialIdentityAttribute)"
        by (simp add: credentials_plain socialIdentityAttribute_def)
      with ok have t: "truthy (getp (credentials u p) ''username'')"
        "truthy (getp (credentials u p) ''password'')"
        by auto
      from t plain have "truthy (getp (wrap_credentials u p) ''username'')"
        "truthy (getp (wrap_credentials u p) ''password'')"
        by (auto simp: credentials_plain split: if_splits)
      with plain sent show ?thesis
        by (simp add: credentials_plain)
    qed
  qed
next
  assume "getActiveUser (this_client w) = None \<and> \<not> lacks_credentials u p"
  then show "requests (snd (login net u p w)) = requests w @ [LoginReq (credentials u p)]"
    using login_transmits by blast
qed

theorem login_transmits_trimmed_witness:
  "getActiveUser (this_client world_fresh) = None
   \<and> \<not> lacks_credentials (JStr '' bob '') (JStr '' pw '')
   \<and> \<not> truthy (getp (wrap_credentials (JStr '' bob '') (JStr '' pw '')) ''_socialIdentity'')
   \<and> requests (snd (login net_accept (JStr '' bob '') (JStr '' pw '') world_fresh))
       = [LoginReq [(''username'', JStr ''bob''), (''password'', JStr ''pw'')]]
   \<and> requests (snd (login net_accept
                        (JObj [(''username'', JStr '' bob ''), (''password'', JStr '' pw '')])
                        JUndefined world_fresh))
       = [LoginReq [(''username'', JStr ''bob''), (''password'', JStr ''pw'')]]
   \<and> \<not> lacks_credentials (JObj fb_credentials) JUndefined
   \<and> truthy (getp (wrap_credentials (JObj fb_credentials) JUndefined) ''_socialIdentity'')
   \<and> requests (snd (login net_accept (JObj fb_credentials) JUndefined world_fresh))
       = [LoginReq fb_credentials]"
proof -
  have a: "getActiveUser (this_client world_fresh) = None"
    by (simp add: client_defs example_defs)
  have b: "\<not> lacks_credentials (JStr '' bob '') (JStr '' pw '')"
    "\<not> lacks_credentials (JObj fb_credentials) JUndefined"
    "\<not> lacks_credentials (JObj [(''username'', JStr '' bob ''), (''password'', JStr '' pw '')])
         JUndefined"
    by (simp_all add: lacks_credentials_def wrap_credentials_def supplied_def value_defs
          fb_credentials_def fb_token_def)
  have c: "credentials (JStr '' bob '') (JStr '' pw '')
             = [(''username'', JStr ''bob''), (''password'', JStr ''pw'')]"
    "credentials (JObj fb_credentials) JUndefined = fb_credentials"
    "credentials (JObj [(''username'', JStr '' bob ''), (''password'', JStr '' pw '')]) JUndefined
       = [(''username'', JStr ''bob''), (''password'', JStr ''pw'')]"
    by (simp_all add: credentials_def wrap_credentials_def value_defs fb_credentials_def
          fb_token_def)
  have d: "\<not> truthy (getp (wrap_credentials (JStr '' bob '') (JStr '' pw '')) ''_socialIdentity'')"
    "truthy (getp (wrap_credentials (JObj fb_credentials) JUndefined) ''_socialIdentity'')"
    by (simp_all add: wrap_credentials_def getp_def fb_credentials_def fb_token_def)
  have e: "requests world_fresh = []"
    by (simp add: world_fresh_def)
  show ?thesis
    using a b c d e
      login_transmits_trimmed [of net_accept "JStr '' bob ''" "JStr '' pw ''" world_fresh]
      login_transmits_trimmed [of net_accept "JObj fb_credentials" JUndefined world_fresh]
      login_transmits_trimmed [of net_accept
        "JObj [(''username'', JStr '' bob ''), (''password'', JStr '' pw '')]" JUndefined world_fresh]
    by simp
qed

section \<open>me\<close>

lemma authtoken_set_authtoken: "authtoken (set_authtoken t d) = t"
  by (simp add: authtoken_def set_authtoken_def metadata_def getp_setp)

lemma getp_set_authtoken: "k \<noteq> kmdAttribute \<Longrightarrow> getp (set_authtoken t d) k = getp d k"
  by (simp add: set_authtoken_def getp_setp)

lemma metadata_set_authtoken:
  "k \<noteq> ''authtoken'' \<Longrightarrow> getp (metadata (set_authtoken t d)) k = getp (metadata d) k"
  by (simp add: set_authtoken_def metadata_def getp_setp)

text \<open>
  C5.  When the profile request succeeds with the record \<open>d\<close>, \<^verbatim>\<open>me\<close> makes the data of
  the user the record: every attribute is the one of \<open>d\<close>, and so is the metadata but for
  the auth token.  A record with an auth token is taken as it is; a record without one
  gets the auth token of the user that was active before, when there was one.  In every
  case the resulting user is then stored as the active user and returned.
\<close>

theorem me_spec:
  "net (requests w) MeReq = Inr d \<Longrightarrow>
   \<exists>d'. me net w =
          (Inr (Some d'),
           w\<lparr>this_data := d',
             this_client := (this_client w)\<lparr>stored_user := Some d'\<rparr>,
             requests := requests w @ [MeReq]\<rparr>)
      \<and> (\<forall>k. k \<noteq> kmdAttribute \<longrightarrow> getp d' k = getp d k)
      \<and> (\<forall>k. k \<noteq> ''authtoken'' \<longrightarrow> getp (metadata d') k = getp (metadata d) k)
      \<and> (truthy (authtoken d) \<longrightarrow> d' = d)
      \<and> (\<forall>a. \<not> truthy (authtoken d) \<and> getActiveUser (this_client w) = Some a
              \<longrightarrow> authtoken d' = authtoken a)
      \<and> (getActiveUser (this_client w) = None \<longrightarrow> d' = d)"
proof (cases "truthy (authtoken d)")
  case True
  assume "net (requests w) MeReq = Inr d"
  with True show ?thesis
    by (simp add: me_def execute_def setAsActiveUser_eq Let_def)
next
  case False
  assume r: "net (requests w) MeReq = Inr d"
  show ?thesis
  proof (cases "getActiveUser (this_client w)")
    case None
    with False r show ?thesis
      by (simp add: me_def execute_def setAsActiveUser_eq Let_def)
  next
    case (Some a)
    with False r have "me net w =
          (Inr (Some (set_authtoken (authtoken a) d)),
           w\<lparr>this_data := set_authtoken (authtoken a) d,
             this_client := (this_client w)\<lparr>stored_user := Some (set_authtoken (authtoken a) d)\<rparr>,
             requests := requests w @ [MeReq]\<rparr>)"
      by (simp add: me_def execute_def setAsActiveUser_eq Let_def)
    with False Some show ?thesis
      by (simp add: authtoken_set_authtoken getp_set_authtoken metadata_set_authtoken)
  qed
qed

theorem me_spec_witness:
  "net_accept (requests world_alice) MeReq = Inr [(''_id'', JStr ''u1''), (''username'', JStr ''alice'')]
   \<and> \<not> truthy (authtoken [(''_id'', JStr ''u1''), (''username'', JStr ''alice'')])
   \<and> getActiveUser (this_client world_alice) = Some alice
   \<and> authtoken alice = JStr ''T1''
   \<and> (\<exists>d'. me net_accept world_alice =
          (Inr (Some d'),
           \<lparr>this_data = d',
            this_client = \<lparr>stored_user = Some d', stored_identity = None\<rparr>,
            requests = [MeReq]\<rparr>)
        \<and> authtoken d' = JStr ''T1''
        \<and> getp d' ''_id'' = JStr ''u1'' \<and> getp d' ''username'' = JStr ''alice'')"
proof -
  have n: "net_accept (requests world_alice) MeReq
             = Inr [(''_id'', JStr ''u1''), (''username'', JStr ''alice'')]"
    by (simp add: net_accept_def)
  have f: "\<not> truthy (authtoken [(''_id'', JStr ''u1''), (''username'', JStr ''alice'')])"
    "authtoken alice = JStr ''T1''"
    by (simp_all add: authtoken_def metadata_def getp_def kmdAttribute_def alice_def)
  have g: "getActiveUser (this_client world_alice) = Some alice"
    by (simp add: client_defs example_defs)
  show ?thesis
    using n f g
      me_spec [of net_accept world_alice "[(''_id'', JStr ''u1''), (''username'', JStr ''alice'')]"]
    by (auto simp: world_alice_def client_alice_def kmdAttribute_def getp_def)
qed

section \<open>The user store\<close>

lemma map_of_delp: "map_of (delp ps k) k' = (if k' = k then None else map_of ps k')"
  by (simp add: delp_def delete_conv')

lemma map_of_setp: "map_of (setp ps k v) k' = (if k' = k then Some v else map_of ps k')"
  by (simp add: setp_def update_conv')

lemma strip_loop_map_of:
  "map_of (strip_loop ident ks si) k =
     (if k \<in> set ks \<and> truthy (getp si k) \<and> \<not> strict_eq ident (JStr k) then None
      else map_of si k)"
proof (induction ks arbitrary: si)
  case Nil
  then show ?case by simp
next
  case (Cons k0 ks)
  show ?case
    by (auto simp: Cons.IH getp_delp map_of_delp)
qed

lemma strip_loop_own:
  "map_of (strip_loop (JStr identity) (map fst si) si) k =
     (if k \<noteq> identity \<and> truthy (getp si k) then None else map_of si k)"
proof -
  have "truthy (getp si k) \<Longrightarrow> k \<in> set (map fst si)"
    by (cases "map_of si k") (auto simp: getp_def dest: map_of_SomeD intro: rev_image_eqI)
  then show ?thesis
    by (auto simp: strip_loop_map_of)
qed

lemma strip_identities_object:
  assumes "getp d socialIdentityAttribute = JObj si"
  shows "strip_identities (options\<lparr>opt_identity := JStr identity\<rparr>) d =
           Inr (if identity = [] then d
                else setp d socialIdentityAttribute
                       (JObj (strip_loop (JStr identity) (map fst si) si)))"
  using assms by (simp add: strip_identities_def)

lemma strip_identities_none:
  "\<not> truthy (opt_identity options) \<Longrightarrow> strip_identities options d = Inr d"
  by (simp add: strip_identities_def)

lemma strip_identities_other:
  "strip_identities options d = Inr body \<Longrightarrow> k \<noteq> socialIdentityAttribute \<Longrightarrow>
   getp body k = getp d k"
  by (auto simp: strip_identities_def getp_setp split: jv.splits if_splits)

lemma strip_identities_keeps:
  assumes "getp d socialIdentityAttribute = JObj si" and "map_of si identity = Some token"
  shows "\<exists>body si'. strip_identities (options\<lparr>opt_identity := JStr identity\<rparr>) d = Inr body
               \<and> getp body socialIdentityAttribute = JObj si'
               \<and> map_of si' identity = Some token"
  using assms by (auto simp: strip_identities_object getp_setp strip_loop_own)

text \<open>The four ways of an update.\<close>

lemma update_no_id:
  "\<not> truthy (getp (this_data w) idAttribute) \<Longrightarrow>
   update net options w = (Inl (KinveyError UserWithoutId), w)"
  by (simp add: update_def save_def)

lemma update_strip_throws:
  "truthy (getp (this_data w) idAttribute) \<Longrightarrow>
   strip_identities options (this_data w) = Inl e \<Longrightarrow>
   update net options w = (Inl e, w)"
  by (simp add: update_def save_def)

lemma update_rejected:
  "truthy (getp (this_data w) idAttribute) \<Longrightarrow>
   strip_identities options (this_data w) = Inr body \<Longrightarrow>
   net (requests w) (UpdateReq body) = Inl e \<Longrightarrow>
   update net options w = (Inl e, w\<lparr>this_data := body, requests := requests w @ [UpdateReq body]\<rparr>)"
  by (simp add: update_def save_def)

lemma update_sent:
  "truthy (getp (this_data w) idAttribute) \<Longrightarrow>
   strip_identities options (this_data w) = Inr body \<Longrightarrow>
   requests (snd (update net options w)) = requests w @ [UpdateReq body]"
  by (auto simp: update_def save_def setAsActiveUser_eq Let_def split: sum.splits)

text \<open>
  On alice with the social identity \<^verbatim>\<open>"ab"\<close> an update scoped to facebook throws at the
  first character and sends nothing; so does a \<^verbatim>\<open>disconnect\<close> of the identity \<^verbatim>\<open>"0"\<close>.
\<close>

lemma update_text_throws:
  "update net_accept (no_options\<lparr>opt_identity := JStr ''facebook''\<rparr>) world_text
     = (Inl TypeError, world_text)"
  by (simp add: update_def save_def strip_identities_def string_keys_def world_text_def
        no_options_def attribute_defs getp_def)

lemma disconnect_text_throws:
  "disconnect net_accept ''0'' no_options world_text = (Inl TypeError, world_text)"
  by (simp add: disconnect_def delete_throws_def identities_def string_keys_def world_text_def
        attribute_defs getp_def)

section \<open>The requests of an operation\<close>

lemma update_requests:
  "requests (snd (update net options w)) = requests w
   \<or> (\<exists>body. requests (snd (update net options w)) = requests w @ [UpdateReq body])"
  by (auto simp: update_def save_def setAsActiveUser_eq Let_def split: sum.splits)

lemma signup_requests:
  "requests (snd (signup net data options w)) = requests w
   \<or> requests (snd (signup net data options w)) = requests w @ [SignupReq data]"
  by (auto simp: signup_def execute_def setAsActiveUser_eq Let_def split: sum.splits)

lemma connect_finish_requests:
  "requests (snd (connect_finish identity options w)) = requests w"
  by (simp add: connect_finish_def split: jv.splits)

lemma connect_attempt_prefix:
  "\<exists>rest. requests (snd (connect_attempt net identity options w)) = requests w @ rest"
proof (cases "isActive (this_client w) (this_data w)")
  case True
  with update_requests [of net "options\<lparr>opt_identity := JStr identity\<rparr>" w]
  show ?thesis by (auto simp: connect_attempt_def)
next
  case False
  with login_requests [of net "JObj (this_data w)" JNull w]
  show ?thesis by (auto simp: connect_attempt_def)
qed

lemma connect_prefix:
  "connect n net identity token options w = Some (r, w') \<Longrightarrow>
   \<exists>rest. requests w' = requests w @ rest"
proof (induction n arbitrary: w r w')
  case 0
  then show ?case by simp
next
  case (Suc n)
  show ?case
  proof (cases "merge_identity identity token (this_data w)")
    case (Inl e)
    with Suc.prems show ?thesis by simp
  next
    case (Inr data)
    obtain r1 w1 where a: "connect_attempt net identity options (w\<lparr>this_data := data\<rparr>) = (r1, w1)"
      by (cases "connect_attempt net identity options (w\<lparr>this_data := data\<rparr>)")
    from connect_attempt_prefix [of net identity options "w\<lparr>this_data := data\<rparr>"] a
    obtain rest1 where p1: "requests w1 = requests w @ rest1" by auto
    obtain r2 w2 where s: "signup net (this_data w1) options w1 = (r2, w2)"
      by (cases "signup net (this_data w1) options w1")
    from signup_requests [of net "this_data w1" options w1] s
    obtain rest2 where p2: "requests w2 = requests w1 @ rest2" by auto
    show ?thesis
    proof (cases r1)
      case (Inr u)
      with Suc.prems Inr a \<open>merge_identity identity token (this_data w) = Inr data\<close>
      have "w' = snd (connect_finish identity options w1)" by auto
      with p1 show ?thesis by (simp add: connect_finish_requests)
    next
      case (Inl e)
      show ?thesis
      proof (cases "e = NotFoundError")
        case False
        with Suc.prems Inl a \<open>merge_identity identity token (this_data w) = Inr data\<close>
        have "w' = w1" by (cases e) auto
        with p1 show ?thesis by simp
      next
        case True
        show ?thesis
        proof (cases r2)
          case (Inl e2)
          with Suc.prems True \<open>r1 = Inl e\<close> a s \<open>merge_identity identity token (this_data w) = Inr data\<close>
          have "w' = w2" by auto
          with p1 p2 show ?thesis by simp
        next
          case (Inr u2)
          with Suc.prems True \<open>r1 = Inl e\<close> a s \<open>merge_identity identity token (this_data w) = Inr data\<close>
          obtain r3 w3 where c: "connect n net identity token options w2 = Some (r3, w3)"
            and w': "w' = w3 \<or> w' = snd (connect_finish identity options w3)"
            by (auto split: option.splits sum.splits)
          from Suc.IH [OF c] obtain rest3 where "requests w3 = requests w2 @ rest3" by auto
          with w' p1 p2 show ?thesis by (auto simp: connect_finish_requests)
        qed
      qed
    qed
  qed
qed

lemma merge_identity_Inr:
  assumes "merge_identity identity token d = Inr data"
  shows "\<exists>si. getp data socialIdentityAttribute = JObj si \<and> map_of si identity = Some token
           \<and> (\<forall>k. k \<noteq> socialIdentityAttribute \<longrightarrow> getp data k = getp d k)"
  using assms
  by (auto simp: merge_identity_def Let_def getp_setp map_of_setp split: jv.splits if_splits)

lemma merge_identity_Inl:
  "merge_identity identity token d = Inl e \<Longrightarrow> e = TypeError"
  by (auto simp: merge_identity_def Let_def split: jv.splits if_splits)

lemma isActive_merged:
  assumes "merge_identity identity token d = Inr data"
  shows "isActive c data = isActive c d"
proof -
  from merge_identity_Inr [OF assms]
  have "getp data idAttribute = getp d idAttribute"
    by (auto simp: attribute_defs)
  then show ?thesis
    by (simp add: isActive_def split: option.splits)
qed

lemma connect_after_attempt:
  assumes m: "merge_identity identity token (this_data w) = Inr data"
    and c: "connect (Suc n) net identity token options w = Some (r, w')"
  shows "\<exists>rest. requests w'
           = requests (snd (connect_attempt net identity options (w\<lparr>this_data := data\<rparr>))) @ rest"
proof -
  obtain r1 w1 where a: "connect_attempt net identity options (w\<lparr>this_data := data\<rparr>) = (r1, w1)"
    by (cases "connect_attempt net identity options (w\<lparr>this_data := data\<rparr>)")
  have "\<exists>rest. requests w' = requests w1 @ rest"
  proof (cases r1)
    case (Inr u)
    with c a m have "w' = snd (connect_finish identity options w1)" by auto
    then show ?thesis by (simp add: connect_finish_requests)
  next
    case (Inl e)
    show ?thesis
    proof (cases "e = NotFoundError")
      case False
      with c Inl a m have "w' = w1" by (cases e) auto
      then show ?thesis by simp
    next
      case True
      obtain r2 w2 where s: "signup net (this_data w1) options w1 = (r2, w2)"
        by (cases "signup net (this_data w1) options w1")
      from signup_requests [of net "this_data w1" options w1] s
      obtain rest2 where p2: "requests w2 = requests w1 @ rest2" by auto
      show ?thesis
      proof (cases r2)
        case (Inl e2)
        with c True \<open>r1 = Inl e\<close> a s m have "w' = w2" by auto
        with p2 show ?thesis by simp
      next
        case (Inr u2)
        with c True \<open>r1 = Inl e\<close> a s m
        obtain r3 w3 where c3: "connect n net identity token options w2 = Some (r3, w3)"
          and w': "w' = w3 \<or> w' = snd (connect_finish identity options w3)"
          by (auto split: option.splits sum.splits)
        from connect_prefix [OF c3] obtain rest3 where "requests w3 = requests w2 @ rest3" by auto
        with w' p2 show ?thesis by (auto simp: connect_finish_requests)
      qed
    qed
  qed
  with a show ?thesis by simp
qed

section \<open>The update of connect\<close>

text \<open>
  C6.  Provider names are not empty (\<^verbatim>\<open>connectWithIdentity\<close> refuses an empty identity,
  the other callers pass the name of Mobile Identity Connect).  When \<^verbatim>\<open>connect\<close> is
  called with such a name on a user that is active, it issues its update exactly when
  the token can be merged into the social identity and the user has an \<^verbatim>\<open>_id\<close>;
  otherwise it fails before anything is sent.  The update is the first request of the
  call.  Its body is the data of the user but for the social identity: there every
  entry other than the connected provider's whose token is truthy is dropped, while the
  connected provider's entry, which is the new token, and the entries with a falsy token
  are kept.
\<close>

theorem connect_update_scoped:
  assumes act: "isActive (this_client w) (this_data w)"
    and name: "identity \<noteq> []"
  shows
    "((\<exists>e. merge_identity identity token (this_data w) = Inl e) \<longrightarrow>
        connect (Suc n) net identity token options w = Some (Inl TypeError, w))
     \<and> (merge_identity identity token (this_data w) = Inr data
         \<and> \<not> truthy (getp (this_data w) idAttribute) \<longrightarrow>
        connect (Suc n) net identity token options w
          = Some (Inl (KinveyError UserWithoutId), w\<lparr>this_data := data\<rparr>))
     \<and> (merge_identity identity token (this_data w) = Inr data
         \<and> truthy (getp (this_data w) idAttribute) \<longrightarrow>
        (\<exists>si body si'.
            getp data socialIdentityAttribute = JObj si
            \<and> map_of si identity = Some token
            \<and> (\<forall>k. k \<noteq> identity \<longrightarrow>
                   map_of si k = map_of (case identities (this_data w) of JObj s \<Rightarrow> s | _ \<Rightarrow> []) k)
            \<and> getp body socialIdentityAttribute = JObj si'
            \<and> (\<forall>k. map_of si' k
                     = (if k \<noteq> identity \<and> truthy (getp si k) then None else map_of si k))
            \<and> (\<forall>k. k \<noteq> socialIdentityAttribute \<longrightarrow> getp body k = getp (this_data w) k)
            \<and> requests (snd (connect_attempt net identity options (w\<lparr>this_data := data\<rparr>)))
                = requests w @ [UpdateReq body]
            \<and> (\<forall>r w'. connect (Suc n) net identity token options w = Some (r, w') \<longrightarrow>
                   (\<exists>rest. requests w' = requests w @ UpdateReq body # rest))))"
proof -
  have h1: "(\<exists>e. merge_identity identity token (this_data w) = Inl e) \<longrightarrow>
        connect (Suc n) net identity token options w = Some (Inl TypeError, w)"
    using merge_identity_Inl by auto
  have h2: "merge_identity identity token (this_data w) = Inr data
         \<and> \<not> truthy (getp (this_data w) idAttribute) \<longrightarrow>
        connect (Suc n) net identity token options w
          = Some (Inl (KinveyError UserWithoutId), w\<lparr>this_data := data\<rparr>)"
  proof
    assume a: "merge_identity identity token (this_data w) = Inr data
         \<and> \<not> truthy (getp (this_data w) idAttribute)"
    let ?w0 = "w\<lparr>this_data := data\<rparr>"
    from a merge_identity_Inr [of identity token "this_data w" data]
    have "\<not> truthy (getp (this_data ?w0) idAttribute)"
      by (auto simp: attribute_defs)
    then have "update net (options\<lparr>opt_identity := JStr identity\<rparr>) ?w0
                 = (Inl (KinveyError UserWithoutId), ?w0)"
      by (rule update_no_id)
    moreover from a act have "isActive (this_client ?w0) (this_data ?w0)"
      using isActive_merged [of identity token "this_data w" data "this_client w"] by simp
    ultimately have "connect_attempt net identity options ?w0
                       = (Inl (KinveyError UserWithoutId), ?w0)"
      by (simp add: connect_attempt_def)
    with a show "connect (Suc n) net identity token options w
          = Some (Inl (KinveyError UserWithoutId), w\<lparr>this_data := data\<rparr>)"
      by simp
  qed
  have h3: "merge_identity identity token (this_data w) = Inr data
         \<and> truthy (getp (this_data w) idAttribute) \<longrightarrow>
        (\<exists>si body si'.
            getp data socialIdentityAttribute = JObj si
            \<and> map_of si identity = Some token
            \<and> (\<forall>k. k \<noteq> identity \<longrightarrow>
                   map_of si k = map_of (case identities (this_data w) of JObj s \<Rightarrow> s | _ \<Rightarrow> []) k)
            \<and> getp body socialIdentityAttribute = JObj si'
            \<and> (\<forall>k. map_of si' k
                     = (if k \<noteq> identity \<and> truthy (getp si k) then None else map_of si k))
            \<and> (\<forall>k. k \<noteq> socialIdentityAttribute \<longrightarrow> getp body k = getp (this_data w) k)
            \<and> requests (snd (connect_attempt net identity options (w\<lparr>this_data := data\<rparr>)))
                = requests w @ [UpdateReq body]
            \<and> (\<forall>r w'. connect (Suc n) net identity token options w = Some (r, w') \<longrightarrow>
                   (\<exists>rest. requests w' = requests w @ UpdateReq body # rest)))"
  proof
    assume a: "merge_identity identity token (this_data w) = Inr data
         \<and> truthy (getp (this_data w) idAttribute)"
    then have m: "merge_identity identity token (this_data w) = Inr data" by simp
    let ?w0 = "w\<lparr>this_data := data\<rparr>"
    from merge_identity_Inr [OF m] obtain si where
      si: "getp data socialIdentityAttribute = JObj si" "map_of si identity = Some token"
      and same: "\<forall>k. k \<noteq> socialIdentityAttribute \<longrightarrow> getp data k = getp (this_data w) k"
      by blast
    from m si(1) have old: "\<forall>k. k \<noteq> identity \<longrightarrow>
        map_of si k = map_of (case identities (this_data w) of JObj s \<Rightarrow> s | _ \<Rightarrow> []) k"
      by (auto simp: merge_identity_def identities_def Let_def getp_setp map_of_setp
            split: jv.splits if_splits)
    let ?si' = "strip_loop (JStr identity) (map fst si) si"
    let ?body = "setp data socialIdentityAttribute (JObj ?si')"
    have st: "strip_identities (options\<lparr>opt_identity := JStr identity\<rparr>) (this_data ?w0)
                = Inr ?body"
      using si(1) name by (simp add: strip_identities_object)
    from a same have id: "truthy (getp (this_data ?w0) idAttribute)"
      by (simp add: attribute_defs)
    from m act have act0: "isActive (this_client ?w0) (this_data ?w0)"
      using isActive_merged [of identity token "this_data w" data "this_client w"] by simp
    from update_sent [OF id st, of net] act0
    have sent: "requests (snd (connect_attempt net identity options ?w0))
                  = requests w @ [UpdateReq ?body]"
      by (simp add: connect_attempt_def)
    have after: "\<forall>r w'. connect (Suc n) net identity token options w = Some (r, w') \<longrightarrow>
                   (\<exists>rest. requests w' = requests w @ UpdateReq ?body # rest)"
      using connect_after_attempt [OF m] sent by fastforce
    have b1: "getp ?body socialIdentityAttribute = JObj ?si'"
      by (simp add: getp_setp)
    have b2: "\<forall>k. k \<noteq> socialIdentityAttribute \<longrightarrow> getp ?body k = getp (this_data w) k"
      using same by (simp add: getp_setp)
    have b3: "\<forall>k. map_of ?si' k
                     = (if k \<noteq> identity \<and> truthy (getp si k) then None else map_of si k)"
      using strip_loop_own [of identity si] by blast
    from si old b1 b2 b3 sent after
    show "\<exists>si body si'.
            getp data socialIdentityAttribute = JObj si
            \<and> map_of si identity = Some token
            \<and> (\<forall>k. k \<noteq> identity \<longrightarrow>
                   map_of si k = map_of (case identities (this_data w) of JObj s \<Rightarrow> s | _ \<Rightarrow> []) k)
            \<and> getp body socialIdentityAttribute = JObj si'
            \<and> (\<forall>k. map_of si' k
                     = (if k \<noteq> identity \<and> truthy (getp si k) then None else map_of si k))
            \<and> (\<forall>k. k \<noteq> socialIdentityAttribute \<longrightarrow> getp body k = getp (this_data w) k)
            \<and> requests (snd (connect_attempt net identity options (w\<lparr>this_data := data\<rparr>)))
                = requests w @ [UpdateReq body]
            \<and> (\<forall>r w'. connect (Suc n) net identity token options w = Some (r, w') \<longrightarrow>
                   (\<exists>rest. requests w' = requests w @ UpdateReq body # rest))"
      by blast
  qed
  show ?thesis
    by (rule conjI [OF h1 conjI [OF h2 h3]])
qed

theorem connect_update_scoped_witness:
  "isActive (this_client world_google) (this_data world_google)
   \<and> ''facebook'' \<noteq> []
   \<and> truthy (getp (this_data world_google) idAttribute)
   \<and> merge_identity ''facebook'' fb_token (this_data world_google)
       = Inr [(''_id'', JStr ''u1''),
              (''_socialIdentity'',
               JObj [(''google'', JStr ''g-1''), (''twitter'', JNull), (''facebook'', fb_token)])]
   \<and> requests (snd (connect_attempt net_accept ''facebook'' no_options
         (world_google\<lparr>this_data := [(''_id'', JStr ''u1''),
              (''_socialIdentity'',
               JObj [(''google'', JStr ''g-1''), (''twitter'', JNull), (''facebook'', fb_token)])]\<rparr>)))
       = [UpdateReq [(''_id'', JStr ''u1''),
                     (''_socialIdentity'', JObj [(''twitter'', JNull), (''facebook'', fb_token)])]]
   \<and> connect (Suc 0) net_accept ''facebook'' fb_token no_options world_google \<noteq> None
   \<and> requests (snd (the (connect (Suc 0) net_accept ''facebook'' fb_token no_options world_google)))
       = [UpdateReq [(''_id'', JStr ''u1''),
                     (''_socialIdentity'', JObj [(''twitter'', JNull), (''facebook'', fb_token)])]]
   \<and> isActive (this_client world_noid) (this_data world_noid)
   \<and> \<not> truthy (getp (this_data world_noid) idAttribute)
   \<and> merge_identity ''facebook'' fb_token (this_data world_noid)
       = Inr [(''_socialIdentity'', JObj [(''facebook'', fb_token)])]
   \<and> connect (Suc 0) net_accept ''facebook'' fb_token no_options world_noid
       = Some (Inl (KinveyError UserWithoutId),
               world_noid\<lparr>this_data := [(''_socialIdentity'', JObj [(''facebook'', fb_token)])]\<rparr>)
   \<and> isActive (this_client world_text) (this_data world_text)
   \<and> merge_identity ''facebook'' fb_token (this_data world_text) = Inl TypeError
   \<and> connect (Suc 0) net_accept ''facebook'' fb_token no_options world_text
       = Some (Inl TypeError, world_text)"
proof -
  have i: "isActive (this_client world_google) (this_data world_google)"
    "isActive (this_client world_noid) (this_data world_noid)"
    "isActive (this_client world_text) (this_data world_text)"
    by (simp_all add: isActive_def client_defs world_google_def alice_google_def world_noid_def
          world_text_def client_alice_def alice_def bob_def attribute_defs getp_def)
  have t: "truthy (getp (this_data world_google) idAttribute)"
    "\<not> truthy (getp (this_data world_noid) idAttribute)"
    by (simp_all add: world_google_def alice_google_def world_noid_def attribute_defs getp_def)
  have m: "merge_identity ''facebook'' fb_token (this_data world_google)
       = Inr [(''_id'', JStr ''u1''),
              (''_socialIdentity'',
               JObj [(''google'', JStr ''g-1''), (''twitter'', JNull), (''facebook'', fb_token)])]"
    "merge_identity ''facebook'' fb_token (this_data world_noid)
       = Inr [(''_socialIdentity'', JObj [(''facebook'', fb_token)])]"
    "merge_identity ''facebook'' fb_token (this_data world_text) = Inl TypeError"
    by (simp_all add: merge_identity_def world_google_def alice_google_def world_noid_def
          world_text_def attribute_defs getp_def setp_def)
  have c: "connect (Suc 0) net_accept ''facebook'' fb_token no_options world_google
     = Some (Inr (Some [(''_id'', JStr ''u1''),
                     (''_socialIdentity'', JObj [(''twitter'', JNull), (''facebook'', fb_token)])]),
        \<lparr>this_data = [(''_id'', JStr ''u1''),
                     (''_socialIdentity'', JObj [(''twitter'', JNull), (''facebook'', fb_token)])],
         this_client = \<lparr>stored_user = Some [(''_id'', JStr ''u1''),
                     (''_socialIdentity'', JObj [(''twitter'', JNull), (''facebook'', fb_token)])],
                        stored_identity = Some [(''identity'', JStr ''facebook''),
                          (''token'', fb_token), (''redirectUri'', JUndefined),
                          (''client'', JUndefined)]\<rparr>,
         requests = [UpdateReq [(''_id'', JStr ''u1''),
                     (''_socialIdentity'', JObj [(''twitter'', JNull), (''facebook'', fb_token)])]]\<rparr>)"
    by (simp add: merge_identity_def connect_attempt_def connect_finish_def update_def save_def
          strip_identities_def isActive_def setAsActiveUser_eq client_defs world_google_def
          alice_google_def attribute_defs no_options_def net_accept_def fb_token_def
          getp_def setp_def delp_def Let_def)
  have at: "requests (snd (connect_attempt net_accept ''facebook'' no_options
         (world_google\<lparr>this_data := [(''_id'', JStr ''u1''),
              (''_socialIdentity'',
               JObj [(''google'', JStr ''g-1''), (''twitter'', JNull), (''facebook'', fb_token)])]\<rparr>)))
       = [UpdateReq [(''_id'', JStr ''u1''),
                     (''_socialIdentity'', JObj [(''twitter'', JNull), (''facebook'', fb_token)])]]"
    by (simp add: connect_attempt_def update_def save_def
          strip_identities_def isActive_def setAsActiveUser_eq client_defs world_google_def
          alice_google_def attribute_defs no_options_def net_accept_def fb_token_def
          getp_def setp_def delp_def Let_def)
  have name: "''facebook'' \<noteq> []" by simp
  have n: "connect (Suc 0) net_accept ''facebook'' fb_token no_options world_noid
       = Some (Inl (KinveyError UserWithoutId),
               world_noid\<lparr>this_data := [(''_socialIdentity'', JObj [(''facebook'', fb_token)])]\<rparr>)"
    using connect_update_scoped [OF i(2) name, of fb_token 0 net_accept no_options
        "[(''_socialIdentity'', JObj [(''facebook'', fb_token)])]"] t(2) m(2)
    by blast
  have x: "connect (Suc 0) net_accept ''facebook'' fb_token no_options world_text
       = Some (Inl TypeError, world_text)"
    using connect_update_scoped [OF i(3) name, of fb_token 0 net_accept no_options] m(3)
    by blast
  have g: "\<exists>body si'. getp body socialIdentityAttribute = JObj si'
             \<and> map_of si' ''google'' = None
             \<and> map_of si' ''twitter'' = Some JNull
             \<and> map_of si' ''facebook'' = Some fb_token
             \<and> requests (snd (connect_attempt net_accept ''facebook'' no_options
                   (world_google\<lparr>this_data := [(''_id'', JStr ''u1''),
                      (''_socialIdentity'',
                       JObj [(''google'', JStr ''g-1''), (''twitter'', JNull),
                             (''facebook'', fb_token)])]\<rparr>)))
                 = requests world_google @ [UpdateReq body]"
  proof -
    from connect_update_scoped [OF i(1) name, of fb_token 0 net_accept no_options
        "[(''_id'', JStr ''u1''),
              (''_socialIdentity'',
               JObj [(''google'', JStr ''g-1''), (''twitter'', JNull), (''facebook'', fb_token)])]"]
      t(1) m(1)
    obtain si body si' where
      si: "getp [(''_id'', JStr ''u1''),
              (''_socialIdentity'',
               JObj [(''google'', JStr ''g-1''), (''twitter'', JNull), (''facebook'', fb_token)])]
             socialIdentityAttribute = JObj si"
      and b: "getp body socialIdentityAttribute = JObj si'"
      and k: "\<forall>k. map_of si' k
                 = (if k \<noteq> ''facebook'' \<and> truthy (getp si k) then None else map_of si k)"
      and r: "requests (snd (connect_attempt net_accept ''facebook'' no_options
                   (world_google\<lparr>this_data := [(''_id'', JStr ''u1''),
                      (''_socialIdentity'',
                       JObj [(''google'', JStr ''g-1''), (''twitter'', JNull),
                             (''facebook'', fb_token)])]\<rparr>)))
                 = requests world_google @ [UpdateReq body]"
      by blast
    from si have "si = [(''google'', JStr ''g-1''), (''twitter'', JNull), (''facebook'', fb_token)]"
      by (simp add: attribute_defs getp_def)
    with k have "map_of si' ''google'' = None" "map_of si' ''twitter'' = Some JNull"
      "map_of si' ''facebook'' = Some fb_token"
      by (simp_all add: getp_def)
    with b r show ?thesis by blast
  qed
  show ?thesis
    using i t m c at n x g by (simp del: connect.simps)
qed

section \<open>disconnect\<close>

lemma remove_identity_other:
  "k \<noteq> socialIdentityAttribute \<Longrightarrow> getp (remove_identity identity d) k = getp d k"
  by (simp add: remove_identity_def getp_setp Let_def)

lemma remove_identity_entries:
  "getp d socialIdentityAttribute = JObj si \<Longrightarrow>
   getp (remove_identity identity d) socialIdentityAttribute = JObj (delp si identity)"
  by (simp add: remove_identity_def getp_setp Let_def)

text \<open>When the \<^verbatim>\<open>delete\<close> throws, the data of the user is as it was.\<close>

lemma remove_identity_thrown:
  assumes "delete_throws (identities d) identity"
  shows "remove_identity identity d = d"
proof -
  from assms obtain s where s: "getp d socialIdentityAttribute = JStr s" "s \<noteq> []"
    by (auto simp: delete_throws_def identities_def split: jv.splits if_splits)
  then have "map_of d socialIdentityAttribute = Some (JStr s)"
    by (cases "map_of d socialIdentityAttribute") (auto simp: getp_def)
  with s show ?thesis
    by (simp add: remove_identity_def setp_def update_triv)
qed

text \<open>
  What \<^verbatim>\<open>disconnect\<close> does on a user without \<^verbatim>\<open>_id\<close> when the context has an active social
  identity and the \<^verbatim>\<open>delete\<close> does not throw: nothing is sent, the entry of the provider is
  deleted and no other, and the active social identity is cleared exactly when its
  \<^verbatim>\<open>identity\<close> is the provider.
\<close>

lemma disconnect_local:
  assumes "\<not> truthy (getp (this_data w) idAttribute)"
    and "getActiveSocialIdentity (this_client w) = Some a"
    and "\<not> delete_throws (identities (this_data w)) identity"
  shows "disconnect net identity options w =
           (Inr (Some (remove_identity identity (this_data w))),
            w\<lparr>this_data := remove_identity identity (this_data w),
              this_client := (if strict_eq (getp a ''identity'') (JStr identity)
                              then (this_client w)\<lparr>stored_identity := None\<rparr>
                              else this_client w)\<rparr>)"
  using assms
  by (simp add: disconnect_def Let_def remove_identity_other attribute_defs client_defs)

text \<open>
  C8.  The claim that \<^verbatim>\<open>disconnect\<close> always succeeds locally does not hold of the code:
  on a user without \<^verbatim>\<open>_id\<close>, when the context has no active social identity (none was
  ever recorded, or an earlier \<^verbatim>\<open>disconnect\<close> has cleared it with \<^verbatim>\<open>null\<close>), the entry is
  deleted, nothing is sent, and the promise is rejected with the \<^verbatim>\<open>TypeError\<close> of reading
  \<^verbatim>\<open>identity\<close> on \<^verbatim>\<open>null\<close>.
\<close>

theorem disconnect_without_pointer:
  assumes "\<not> truthy (getp (this_data w) idAttribute)"
    and "getActiveSocialIdentity (this_client w) = None"
  shows "disconnect net identity options w =
           (Inl TypeError, w\<lparr>this_data := remove_identity identity (this_data w)\<rparr>)"
proof (cases "delete_throws (identities (this_data w)) identity")
  case True
  then show ?thesis
    by (simp add: disconnect_def remove_identity_thrown)
next
  case False
  with assms show ?thesis
    by (simp add: disconnect_def Let_def remove_identity_other attribute_defs client_defs)
qed

theorem disconnect_without_pointer_witness:
  "\<not> truthy (getp (this_data world_local) idAttribute)
   \<and> getActiveSocialIdentity (this_client world_local) = None
   \<and> disconnect net_accept ''facebook'' no_options world_local
       = (Inl TypeError,
          \<lparr>this_data = [(''_socialIdentity'', JObj [(''google'', JStr ''g-1'')])],
           this_client = client_none, requests = []\<rparr>)
   \<and> disconnect net_accept ''facebook'' no_options world_local_fb
       = (Inr (Some [(''_socialIdentity'', JObj [(''google'', JStr ''g-1'')])]),
          \<lparr>this_data = [(''_socialIdentity'', JObj [(''google'', JStr ''g-1'')])],
           this_client = client_none, requests = []\<rparr>)
   \<and> fst (disconnect net_accept ''google'' no_options
             (snd (disconnect net_accept ''facebook'' no_options world_local_fb)))
       = Inl TypeError"
proof -
  have a: "\<not> truthy (getp (this_data world_local) idAttribute)"
    "getActiveSocialIdentity (this_client world_local) = None"
    by (simp_all add: world_local_def local_user_def client_none_def client_defs
          attribute_defs getp_def)
  have r: "remove_identity ''facebook'' local_user
             = [(''_socialIdentity'', JObj [(''google'', JStr ''g-1'')])]"
    by (simp add: remove_identity_def local_user_def fb_token_def attribute_defs
          getp_def setp_def delp_def)
  have d: "\<not> delete_throws (identities (this_data world_local_fb)) ''facebook''"
    by (simp add: delete_throws_def identities_def world_local_fb_def local_user_def
          attribute_defs getp_def)
  have b: "disconnect net_accept ''facebook'' no_options world_local_fb
       = (Inr (Some [(''_socialIdentity'', JObj [(''google'', JStr ''g-1'')])]),
          \<lparr>this_data = [(''_socialIdentity'', JObj [(''google'', JStr ''g-1'')])],
           this_client = client_none, requests = []\<rparr>)"
    using disconnect_local [of world_local_fb
            "[(''identity'', JStr ''facebook''), (''token'', fb_token)]"
            "''facebook''" net_accept no_options] r d
    by (simp add: world_local_fb_def local_user_def client_none_def client_defs
          attribute_defs getp_def)
  have c: "fst (disconnect net_accept ''google'' no_options
             \<lparr>this_data = [(''_socialIdentity'', JObj [(''google'', JStr ''g-1'')])],
              this_client = client_none, requests = []\<rparr>) = Inl TypeError"
    using disconnect_without_pointer [of
            "\<lparr>this_data = [(''_socialIdentity'', JObj [(''google'', JStr ''g-1'')])],
              this_client = client_none, requests = []\<rparr>" net_accept "''google''" no_options]
    by (simp add: client_none_def client_defs attribute_defs getp_def)
  show ?thesis
    using a b c r disconnect_without_pointer [OF a, of net_accept "''facebook''" no_options]
    by (simp add: world_local_def)
qed

section \<open>What a failure leaves behind\<close>

lemma login_failure_state:
  "fst (login net u p w) = Inl e \<Longrightarrow>
   this_data (snd (login net u p w)) = this_data w
   \<and> this_client (snd (login net u p w)) = this_client w"
  by (auto simp: login_def execute_def setAsActiveUser_eq Let_def split: sum.splits if_splits)

lemma signup_failure_state:
  "fst (signup net data options w) = Inl e \<Longrightarrow>
   this_data (snd (signup net data options w)) = this_data w
   \<and> this_client (snd (signup net data options w)) = this_client w"
  by (auto simp: signup_def execute_def setAsActiveUser_eq Let_def split: sum.splits if_splits)

lemma me_failure_state:
  "fst (me net w) = Inl e \<Longrightarrow>
   this_data (snd (me net w)) = this_data w \<and> this_client (snd (me net w)) = this_client w"
  by (auto simp: me_def execute_def setAsActiveUser_eq Let_def split: sum.splits if_splits)

lemma update_failure_state:
  "fst (update net options w) = Inl e \<Longrightarrow>
   this_client (snd (update net options w)) = this_client w
   \<and> (this_data (snd (update net options w)) = this_data w
      \<or> strip_identities options (this_data w) = Inr (this_data (snd (update net options w))))"
  by (auto simp: update_def save_def setAsActiveUser_eq Let_def split: sum.splits if_splits)

lemma connect_attempt_failure_state:
  "fst (connect_attempt net identity options w) = Inl e \<Longrightarrow>
   this_client (snd (connect_attempt net identity options w)) = this_client w
   \<and> (this_data (snd (connect_attempt net identity options w)) = this_data w
      \<or> strip_identities (options\<lparr>opt_identity := JStr identity\<rparr>) (this_data w)
          = Inr (this_data (snd (connect_attempt net identity options w))))"
  using update_failure_state [of net "options\<lparr>opt_identity := JStr identity\<rparr>" w e]
    login_failure_state [of net "JObj (this_data w)" JNull w e]
  by (auto simp: connect_attempt_def split: if_splits)

text \<open>The login of \<^verbatim>\<open>connect\<close> sends the merged data as they are.\<close>

lemma credentials_merged:
  assumes "merge_identity identity token d = Inr data"
  shows "credentials (JObj data) JNull = data"
    and "truthy (getp data socialIdentityAttribute)"
  using merge_identity_Inr [OF assms]
  by (auto simp: credentials_def wrap_credentials_def attribute_defs)

lemma connect_login_rejected:
  assumes m: "merge_identity identity token (this_data w) = Inr data"
    and none: "getActiveUser (this_client w) = None"
    and rej: "net (requests w) (LoginReq data) = Inl e"
  shows "connect_attempt net identity options (w\<lparr>this_data := data\<rparr>)
           = (Inl e, w\<lparr>this_data := data, requests := requests w @ [LoginReq data]\<rparr>)"
  using none rej credentials_merged [OF m]
  by (simp add: connect_attempt_def login_def isActive_def execute_def Let_def)

lemma connect_update_rejected:
  assumes m: "merge_identity identity token (this_data w) = Inr data"
    and act: "isActive (this_client w) (this_data w)"
    and id: "truthy (getp (this_data w) idAttribute)"
    and st: "strip_identities (options\<lparr>opt_identity := JStr identity\<rparr>) data = Inr body"
    and rej: "net (requests w) (UpdateReq body) = Inl e"
  shows "connect_attempt net identity options (w\<lparr>this_data := data\<rparr>)
           = (Inl e, w\<lparr>this_data := body, requests := requests w @ [UpdateReq body]\<rparr>)"
proof -
  let ?w0 = "w\<lparr>this_data := data\<rparr>"
  from merge_identity_Inr [OF m] id have "truthy (getp (this_data ?w0) idAttribute)"
    by (auto simp: attribute_defs)
  from update_rejected [OF this, of "options\<lparr>opt_identity := JStr identity\<rparr>" body net e] st rej
  have "update net (options\<lparr>opt_identity := JStr identity\<rparr>) ?w0
          = (Inl e, w\<lparr>this_data := body, requests := requests w @ [UpdateReq body]\<rparr>)"
    by simp
  moreover from act isActive_merged [OF m, of "this_client w"]
  have "isActive (this_client ?w0) (this_data ?w0)" by simp
  ultimately show ?thesis by (simp add: connect_attempt_def)
qed

lemma disconnect_update_rejected:
  assumes nt: "\<not> delete_throws (identities (this_data w)) identity"
    and id: "truthy (getp (this_data w) idAttribute)"
    and st: "strip_identities options (remove_identity identity (this_data w)) = Inr body"
    and rej: "net (requests w) (UpdateReq body) = Inl e"
  shows "disconnect net identity options w
           = (Inl e, w\<lparr>this_data := body, requests := requests w @ [UpdateReq body]\<rparr>)"
proof -
  let ?w0 = "w\<lparr>this_data := remove_identity identity (this_data w)\<rparr>"
  from id have "truthy (getp (this_data ?w0) idAttribute)"
    by (simp add: remove_identity_other attribute_defs)
  from update_rejected [OF this, of options body net e] st rej
  have "update net options ?w0
          = (Inl e, w\<lparr>this_data := body, requests := requests w @ [UpdateReq body]\<rparr>)"
    by simp
  with nt id show ?thesis
    by (simp add: disconnect_def Let_def remove_identity_other attribute_defs)
qed

text \<open>
  C9, as the code has it.  A \<^verbatim>\<open>login\<close>, a \<^verbatim>\<open>signup\<close> and a \<^verbatim>\<open>me\<close> that fail leave the data
  of the user and the client as they were.  \<^verbatim>\<open>connect\<close> and \<^verbatim>\<open>disconnect\<close> write to the
  data of the user before the transport is called.  When the attempt of \<^verbatim>\<open>connect\<close> (its
  login, or its update on an active user) fails with an error other than
  \<^verbatim>\<open>NotFoundError\<close>, \<^verbatim>\<open>connect\<close> fails with that error and leaves the client as it was,
  while the data of the user carries the token under the provider and is otherwise,
  outside the social identity, as before.  So it is when the transport rejects the one
  request of the attempt: the login with the merged data when no user is active, the
  update with the stripped body on the active user, and the data of the user is then the
  body that was sent.  When the transport rejects the update of a \<^verbatim>\<open>disconnect\<close>, the
  client is as it was and the data of the user is the body that was sent, which without
  \<^verbatim>\<open>_identity\<close> among the options is the data without the provider's entry.
\<close>

theorem transport_failure_state:
  "(fst (login net u p w) = Inl e \<longrightarrow>
      this_data (snd (login net u p w)) = this_data w
      \<and> this_client (snd (login net u p w)) = this_client w)
   \<and> (fst (signup net d options w) = Inl e \<longrightarrow>
      this_data (snd (signup net d options w)) = this_data w
      \<and> this_client (snd (signup net d options w)) = this_client w)
   \<and> (fst (me net w) = Inl e \<longrightarrow>
      this_data (snd (me net w)) = this_data w \<and> this_client (snd (me net w)) = this_client w)
   \<and> (merge_identity identity token (this_data w) = Inr data
       \<and> connect_attempt net identity options (w\<lparr>this_data := data\<rparr>) = (Inl e, w1)
       \<and> e \<noteq> NotFoundError \<longrightarrow>
      connect (Suc n) net identity token options w = Some (Inl e, w1)
      \<and> this_client w1 = this_client w
      \<and> (\<exists>si. getp (this_data w1) socialIdentityAttribute = JObj si
              \<and> map_of si identity = Some token)
      \<and> (\<forall>k. k \<noteq> socialIdentityAttribute \<longrightarrow> getp (this_data w1) k = getp (this_data w) k))
   \<and> (merge_identity identity token (this_data w) = Inr data
       \<and> getActiveUser (this_client w) = None
       \<and> net (requests w) (LoginReq data) = Inl e \<longrightarrow>
      connect_attempt net identity options (w\<lparr>this_data := data\<rparr>)
        = (Inl e, w\<lparr>this_data := data, requests := requests w @ [LoginReq data]\<rparr>))
   \<and> (merge_identity identity token (this_data w) = Inr data
       \<and> isActive (this_client w) (this_data w)
       \<and> truthy (getp (this_data w) idAttribute)
       \<and> strip_identities (options\<lparr>opt_identity := JStr identity\<rparr>) data = Inr body
       \<and> net (requests w) (UpdateReq body) = Inl e \<longrightarrow>
      connect_attempt net identity options (w\<lparr>this_data := data\<rparr>)
        = (Inl e, w\<lparr>this_data := body, requests := requests w @ [UpdateReq body]\<rparr>))
   \<and> (\<not> delete_throws (identities (this_data w)) identity
       \<and> truthy (getp (this_data w) idAttribute)
       \<and> strip_identities options (remove_identity identity (this_data w)) = Inr body'
       \<and> net (requests w) (UpdateReq body') = Inl e \<longrightarrow>
      disconnect net identity options w
        = (Inl e, w\<lparr>this_data := body', requests := requests w @ [UpdateReq body']\<rparr>))
   \<and> (\<not> truthy (opt_identity options) \<longrightarrow>
      strip_identities options (remove_identity identity (this_data w))
        = Inr (remove_identity identity (this_data w)))"
proof -
  have h1: "fst (login net u p w) = Inl e \<longrightarrow>
      this_data (snd (login net u p w)) = this_data w
      \<and> this_client (snd (login net u p w)) = this_client w"
    using login_failure_state by blast
  have h2: "fst (signup net d options w) = Inl e \<longrightarrow>
      this_data (snd (signup net d options w)) = this_data w
      \<and> this_client (snd (signup net d options w)) = this_client w"
    using signup_failure_state by blast
  have h3: "fst (me net w) = Inl e \<longrightarrow>
      this_data (snd (me net w)) = this_data w \<and> this_client (snd (me net w)) = this_client w"
    using me_failure_state by blast
  have h4: "merge_identity identity token (this_data w) = Inr data
       \<and> connect_attempt net identity options (w\<lparr>this_data := data\<rparr>) = (Inl e, w1)
       \<and> e \<noteq> NotFoundError \<longrightarrow>
      connect (Suc n) net identity token options w = Some (Inl e, w1)
      \<and> this_client w1 = this_client w
      \<and> (\<exists>si. getp (this_data w1) socialIdentityAttribute = JObj si
              \<and> map_of si identity = Some token)
      \<and> (\<forall>k. k \<noteq> socialIdentityAttribute \<longrightarrow> getp (this_data w1) k = getp (this_data w) k)"
  proof
    assume a: "merge_identity identity token (this_data w) = Inr data
       \<and> connect_attempt net identity options (w\<lparr>this_data := data\<rparr>) = (Inl e, w1)
       \<and> e \<noteq> NotFoundError"
    let ?w0 = "w\<lparr>this_data := data\<rparr>"
    from a merge_identity_Inr [of identity token "this_data w" data] obtain si where
      si: "getp data socialIdentityAttribute = JObj si" "map_of si identity = Some token"
      and same: "\<forall>k. k \<noteq> socialIdentityAttribute \<longrightarrow> getp data k = getp (this_data w) k"
      by blast
    from a have c: "connect (Suc n) net identity token options w = Some (Inl e, w1)"
      by (cases e) simp_all
    from connect_attempt_failure_state [of net identity options ?w0 e] a
    have cl: "this_client w1 = this_client w"
      and dt: "this_data w1 = data
               \<or> strip_identities (options\<lparr>opt_identity := JStr identity\<rparr>) data
                   = Inr (this_data w1)"
      by auto
    from dt si strip_identities_keeps [OF si, of options]
    have k: "\<exists>si. getp (this_data w1) socialIdentityAttribute = JObj si
                \<and> map_of si identity = Some token"
      by auto
    from dt same
    have o: "\<forall>k. k \<noteq> socialIdentityAttribute \<longrightarrow> getp (this_data w1) k = getp (this_data w) k"
      using strip_identities_other by fastforce
    from c cl k o
    show "connect (Suc n) net identity token options w = Some (Inl e, w1)
      \<and> this_client w1 = this_client w
      \<and> (\<exists>si. getp (this_data w1) socialIdentityAttribute = JObj si
              \<and> map_of si identity = Some token)
      \<and> (\<forall>k. k \<noteq> socialIdentityAttribute \<longrightarrow> getp (this_data w1) k = getp (this_data w) k)"
      by blast
  qed
  have h5: "merge_identity identity token (this_data w) = Inr data
       \<and> getActiveUser (this_client w) = None
       \<and> net (requests w) (LoginReq data) = Inl e \<longrightarrow>
      connect_attempt net identity options (w\<lparr>this_data := data\<rparr>)
        = (Inl e, w\<lparr>this_data := data, requests := requests w @ [LoginReq data]\<rparr>)"
    using connect_login_rejected by blast
  have h6: "merge_identity identity token (this_data w) = Inr data
       \<and> isActive (this_client w) (this_data w)
       \<and> truthy (getp (this_data w) idAttribute)
       \<and> strip_identities (options\<lparr>opt_identity := JStr identity\<rparr>) data = Inr body
       \<and> net (requests w) (UpdateReq body) = Inl e \<longrightarrow>
      connect_attempt net identity options (w\<lparr>this_data := data\<rparr>)
        = (Inl e, w\<lparr>this_data := body, requests := requests w @ [UpdateReq body]\<rparr>)"
    using connect_update_rejected by blast
  have h7: "\<not> delete_throws (identities (this_data w)) identity
       \<and> truthy (getp (this_data w) idAttribute)
       \<and> strip_identities options (remove_identity identity (this_data w)) = Inr body'
       \<and> net (requests w) (UpdateReq body') = Inl e \<longrightarrow>
      disconnect net identity options w
        = (Inl e, w\<lparr>this_data := body', requests := requests w @ [UpdateReq body']\<rparr>)"
    using disconnect_update_rejected by blast
  have h8: "\<not> truthy (opt_identity options) \<longrightarrow>
      strip_identities options (remove_identity identity (this_data w))
        = Inr (remove_identity identity (this_data w))"
    using strip_identities_none by blast
  show ?thesis
    by (rule conjI [OF h1 conjI [OF h2 conjI [OF h3 conjI [OF h4 conjI [OF h5
          conjI [OF h6 conjI [OF h7 h8]]]]]]])
qed

theorem transport_failure_state_witness:
  "fst (login net_timeout (JStr ''bob'') (JStr ''pw'') world_fresh) = Inl (NetworkError ''timeout'')
   \<and> this_data (snd (login net_timeout (JStr ''bob'') (JStr ''pw'') world_fresh)) = []
   \<and> this_client (snd (login net_timeout (JStr ''bob'') (JStr ''pw'') world_fresh)) = client_none
   \<and> fst (signup net_timeout bob no_options world_fresh) = Inl (NetworkError ''timeout'')
   \<and> this_data (snd (signup net_timeout bob no_options world_fresh)) = []
   \<and> this_client (snd (signup net_timeout bob no_options world_fresh)) = client_none
   \<and> fst (me net_timeout world_alice) = Inl (NetworkError ''timeout'')
   \<and> this_data (snd (me net_timeout world_alice)) = alice
   \<and> this_client (snd (me net_timeout world_alice)) = client_alice
   \<and> NetworkError ''timeout'' \<noteq> NotFoundError
   \<and> merge_identity ''facebook'' fb_token (this_data world_fresh) = Inr fb_user
   \<and> getActiveUser (this_client world_fresh) = None
   \<and> net_timeout (requests world_fresh) (LoginReq fb_user) = Inl (NetworkError ''timeout'')
   \<and> connect_attempt net_timeout ''facebook'' no_options (world_fresh\<lparr>this_data := fb_user\<rparr>)
       = (Inl (NetworkError ''timeout''), world_fb_login)
   \<and> connect (Suc 0) net_timeout ''facebook'' fb_token no_options world_fresh
       = Some (Inl (NetworkError ''timeout''), world_fb_login)
   \<and> merge_identity ''facebook'' fb_token (this_data world_google) = Inr alice_merged
   \<and> isActive (this_client world_google) (this_data world_google)
   \<and> truthy (getp (this_data world_google) idAttribute)
   \<and> strip_identities (no_options\<lparr>opt_identity := JStr ''facebook''\<rparr>) alice_merged
       = Inr alice_scoped
   \<and> net_timeout (requests world_google) (UpdateReq alice_scoped) = Inl (NetworkError ''timeout'')
   \<and> connect_attempt net_timeout ''facebook'' no_options (world_google\<lparr>this_data := alice_merged\<rparr>)
       = (Inl (NetworkError ''timeout''),
          world_google\<lparr>this_data := alice_scoped, requests := [UpdateReq alice_scoped]\<rparr>)
   \<and> connect (Suc 0) net_timeout ''facebook'' fb_token no_options world_google
       = Some (Inl (NetworkError ''timeout''),
               world_google\<lparr>this_data := alice_scoped, requests := [UpdateReq alice_scoped]\<rparr>)
   \<and> \<not> delete_throws (identities (this_data world_google)) ''google''
   \<and> \<not> truthy (opt_identity no_options)
   \<and> remove_identity ''google'' (this_data world_google) = alice_no_google
   \<and> net_timeout (requests world_google) (UpdateReq alice_no_google)
       = Inl (NetworkError ''timeout'')
   \<and> disconnect net_timeout ''google'' no_options world_google
       = (Inl (NetworkError ''timeout''),
          world_google\<lparr>this_data := alice_no_google, requests := [UpdateReq alice_no_google]\<rparr>)"
proof -
  let ?t = "NetworkError ''timeout''"
  note fresh = transport_failure_state [where net = net_timeout and w = world_fresh and e = ?t
      and u = "JStr ''bob''" and p = "JStr ''pw''" and d = bob and options = no_options
      and identity = "''facebook''" and token = fb_token and data = fb_user
      and ?w1.0 = world_fb_login and n = 0]
  note google = transport_failure_state [where net = net_timeout and w = world_google and e = ?t
      and options = no_options and identity = "''facebook''" and token = fb_token
      and data = alice_merged and body = alice_scoped and n = 0
      and ?w1.0 = "world_google\<lparr>this_data := alice_scoped, requests := [UpdateReq alice_scoped]\<rparr>"]
  note dis = transport_failure_state [where net = net_timeout and w = world_google and e = ?t
      and options = no_options and identity = "''google''" and body' = alice_no_google]
  note prof = transport_failure_state [where net = net_timeout and w = world_alice and e = ?t]
  note on_login = fresh [THEN conjunct1]
  note on_signup = fresh [THEN conjunct2, THEN conjunct1]
  note on_me = prof [THEN conjunct2, THEN conjunct2, THEN conjunct1]
  note fresh_connect = fresh [THEN conjunct2, THEN conjunct2, THEN conjunct2, THEN conjunct1]
  note fresh_login =
    fresh [THEN conjunct2, THEN conjunct2, THEN conjunct2, THEN conjunct2, THEN conjunct1]
  note google_connect = google [THEN conjunct2, THEN conjunct2, THEN conjunct2, THEN conjunct1]
  note google_update =
    google [THEN conjunct2, THEN conjunct2, THEN conjunct2, THEN conjunct2, THEN conjunct2,
            THEN conjunct1]
  note dis_update =
    dis [THEN conjunct2, THEN conjunct2, THEN conjunct2, THEN conjunct2, THEN conjunct2,
         THEN conjunct2, THEN conjunct1]
  note dis_body =
    dis [THEN conjunct2, THEN conjunct2, THEN conjunct2, THEN conjunct2, THEN conjunct2,
         THEN conjunct2, THEN conjunct2]
  have w: "this_data world_fresh = []" "this_client world_fresh = client_none"
    "requests world_fresh = []" "this_data world_alice = alice"
    "this_client world_alice = client_alice" "requests world_google = []"
    by (simp_all add: example_defs world_google_def)
  have l: "fst (login net_timeout (JStr ''bob'') (JStr ''pw'') world_fresh) = Inl ?t"
    by (simp add: login_def credentials_def wrap_credentials_def execute_def isActive_def
          client_defs example_defs attribute_defs value_defs)
  from on_login l w
  have l': "this_data (snd (login net_timeout (JStr ''bob'') (JStr ''pw'') world_fresh)) = []"
    "this_client (snd (login net_timeout (JStr ''bob'') (JStr ''pw'') world_fresh)) = client_none"
    by simp_all
  have s: "fst (signup net_timeout bob no_options world_fresh) = Inl ?t"
    by (simp add: signup_def execute_def promoteToActive_def client_defs example_defs)
  from on_signup s w
  have s': "this_data (snd (signup net_timeout bob no_options world_fresh)) = []"
    "this_client (snd (signup net_timeout bob no_options world_fresh)) = client_none"
    by simp_all
  have m: "fst (me net_timeout world_alice) = Inl ?t"
    by (simp add: me_def execute_def example_defs)
  from on_me m w
  have m': "this_data (snd (me net_timeout world_alice)) = alice"
    "this_client (snd (me net_timeout world_alice)) = client_alice"
    by simp_all
  have ne: "?t \<noteq> NotFoundError" by simp
  have f1: "merge_identity ''facebook'' fb_token (this_data world_fresh) = Inr fb_user"
    by (simp add: merge_identity_def world_fresh_def fb_user_def attribute_defs getp_def setp_def)
  have f2: "getActiveUser (this_client world_fresh) = None"
    by (simp add: client_defs example_defs)
  have f3: "net_timeout (requests world_fresh) (LoginReq fb_user) = Inl ?t"
    by (simp add: net_timeout_def)
  have e1: "world_fresh\<lparr>this_data := fb_user, requests := requests world_fresh @ [LoginReq fb_user]\<rparr>
              = world_fb_login"
    by (simp add: world_fresh_def world_fb_login_def)
  from fresh_login f1 f2 f3
  have "connect_attempt net_timeout ''facebook'' no_options (world_fresh\<lparr>this_data := fb_user\<rparr>)
       = (Inl ?t, world_fresh\<lparr>this_data := fb_user,
                              requests := requests world_fresh @ [LoginReq fb_user]\<rparr>)"
    by blast
  with e1
  have f4: "connect_attempt net_timeout ''facebook'' no_options (world_fresh\<lparr>this_data := fb_user\<rparr>)
       = (Inl ?t, world_fb_login)"
    by simp
  from fresh_connect f1 f4 ne
  have f5: "connect (Suc 0) net_timeout ''facebook'' fb_token no_options world_fresh
       = Some (Inl ?t, world_fb_login)"
    by blast
  have g1: "merge_identity ''facebook'' fb_token (this_data world_google) = Inr alice_merged"
    by (simp add: merge_identity_def world_google_def alice_google_def alice_merged_def
          attribute_defs getp_def setp_def)
  have g2: "isActive (this_client world_google) (this_data world_google)"
    by (simp add: isActive_def client_defs world_google_def alice_google_def attribute_defs
          getp_def)
  have g3: "truthy (getp (this_data world_google) idAttribute)"
    by (simp add: world_google_def alice_google_def attribute_defs getp_def)
  have g4: "strip_identities (no_options\<lparr>opt_identity := JStr ''facebook''\<rparr>) alice_merged
       = Inr alice_scoped"
    by (simp add: strip_identities_def alice_merged_def alice_scoped_def no_options_def
          fb_token_def attribute_defs getp_def setp_def delp_def)
  have g5: "net_timeout (requests world_google) (UpdateReq alice_scoped) = Inl ?t"
    "net_timeout (requests world_google) (UpdateReq alice_no_google) = Inl ?t"
    by (simp_all add: net_timeout_def)
  from google_update g1 g2 g3 g4 g5(1)
  have "connect_attempt net_timeout ''facebook'' no_options (world_google\<lparr>this_data := alice_merged\<rparr>)
       = (Inl ?t, world_google\<lparr>this_data := alice_scoped,
                               requests := requests world_google @ [UpdateReq alice_scoped]\<rparr>)"
    by blast
  with w(6)
  have g6: "connect_attempt net_timeout ''facebook'' no_options (world_google\<lparr>this_data := alice_merged\<rparr>)
       = (Inl ?t, world_google\<lparr>this_data := alice_scoped, requests := [UpdateReq alice_scoped]\<rparr>)"
    by simp
  from google_connect g1 g6 ne
  have g7: "connect (Suc 0) net_timeout ''facebook'' fb_token no_options world_google
       = Some (Inl ?t,
               world_google\<lparr>this_data := alice_scoped, requests := [UpdateReq alice_scoped]\<rparr>)"
    by blast
  have d1: "\<not> delete_throws (identities (this_data world_google)) ''google''"
    by (simp add: delete_throws_def identities_def world_google_def alice_google_def
          attribute_defs getp_def)
  have d2: "\<not> truthy (opt_identity no_options)"
    by (simp add: no_options_def)
  have d3: "remove_identity ''google'' (this_data world_google) = alice_no_google"
    by (simp add: remove_identity_def world_google_def alice_google_def alice_no_google_def
          attribute_defs getp_def setp_def delp_def)
  from dis_body d2 d3
  have d4: "strip_identities no_options (remove_identity ''google'' (this_data world_google))
              = Inr alice_no_google"
    by simp
  from dis_update d1 g3 d4 g5(2)
  have "disconnect net_timeout ''google'' no_options world_google
       = (Inl ?t, world_google\<lparr>this_data := alice_no_google,
                     requests := requests world_google @ [UpdateReq alice_no_google]\<rparr>)"
    by blast
  with w(6)
  have d5: "disconnect net_timeout ''google'' no_options world_google
       = (Inl ?t,
          world_google\<lparr>this_data := alice_no_google, requests := [UpdateReq alice_no_google]\<rparr>)"
    by simp
  show ?thesis
    by (intro conjI) (fact l l' s s' m m' ne f1 f2 f3 f4 f5 g1 g2 g3 g4 g5 g6 g7 d1 d2 d3 d5)+
qed

text \<open>
  C9 as it is stated fails: a \<^verbatim>\<open>connect\<close> on a new user whose login times out leaves the
  token in the data of the user.
\<close>

theorem connect_timeout_counterexample:
  "this_data world_fresh = []
   \<and> connect (Suc 0) net_timeout ''facebook'' fb_token no_options world_fresh
       = Some (Inl (NetworkError ''timeout''),
               \<lparr>this_data = [(''_socialIdentity'', JObj [(''facebook'', fb_token)])],
                this_client = client_none,
                requests = [LoginReq [(''_socialIdentity'', JObj [(''facebook'', fb_token)])]]\<rparr>)"
  by (simp add: merge_identity_def connect_attempt_def login_def credentials_def
        wrap_credentials_def execute_def isActive_def client_defs example_defs
        attribute_defs fb_token_def getp_def setp_def Let_def)

section \<open>The recovery of connect\<close>

lemma connect_attempt_signups:
  "signups (requests (snd (connect_attempt net identity options w))) = signups (requests w)"
proof (cases "isActive (this_client w) (this_data w)")
  case True
  with update_requests [of net "options\<lparr>opt_identity := JStr identity\<rparr>" w]
  show ?thesis by (auto simp: connect_attempt_def signups_def)
next
  case False
  with login_requests [of net "JObj (this_data w)" JNull w]
  show ?thesis by (auto simp: connect_attempt_def signups_def)
qed

lemma signup_sent:
  "\<not> (promoteToActive options \<and> getActiveUser (this_client w) \<noteq> None) \<Longrightarrow>
   requests (snd (signup net data options w)) = requests w @ [SignupReq data]"
  by (auto simp: signup_def execute_def setAsActiveUser_eq Let_def split: sum.splits)

text \<open>
  A login of \<^verbatim>\<open>connect\<close> that fails with \<^verbatim>\<open>NotFoundError\<close> has reached the transport with
  the merged data: the failures before the transport are other errors.
\<close>

lemma connect_login_not_found:
  assumes m: "merge_identity identity token (this_data w) = Inr data"
    and na: "\<not> isActive (this_client w) (this_data w)"
    and a: "connect_attempt net identity options (w\<lparr>this_data := data\<rparr>) = (Inl NotFoundError, w1)"
  shows "w1 = w\<lparr>this_data := data, requests := requests w @ [LoginReq data]\<rparr>"
    and "getActiveUser (this_client w1) = None"
proof -
  let ?w0 = "w\<lparr>this_data := data\<rparr>"
  from na isActive_merged [OF m, of "this_client w"]
  have na0: "\<not> isActive (this_client ?w0) (this_data ?w0)" by simp
  with a have l: "login net (JObj data) JNull ?w0 = (Inl NotFoundError, w1)"
    by (simp add: connect_attempt_def)
  then have none: "getActiveUser (this_client w) = None"
    by (auto simp: login_def Let_def split: if_splits)
  from l credentials_merged [OF m] na0 none
  have eq: "w1 = w\<lparr>this_data := data, requests := requests w @ [LoginReq data]\<rparr>"
    by (auto simp: login_def execute_def setAsActiveUser_eq Let_def split: sum.splits if_splits)
  then show "w1 = w\<lparr>this_data := data, requests := requests w @ [LoginReq data]\<rparr>" .
  show "getActiveUser (this_client w1) = None"
    unfolding eq using none by simp
qed

text \<open>
  With an active user on the context and a signup that is to promote, one round of
  \<^verbatim>\<open>connect\<close> is all there is, whatever number of rounds is allowed: a signup after a
  \<^verbatim>\<open>NotFoundError\<close> is refused before the transport, so no signup is sent and \<^verbatim>\<open>connect\<close>
  is not called again.
\<close>

lemma connect_active_one_round:
  assumes act: "getActiveUser (this_client w) \<noteq> None" and pro: "promoteToActive options"
  shows "\<exists>r w'. (\<forall>n. connect (Suc n) net identity token options w = Some (r, w'))
                \<and> signups (requests w') = signups (requests w)"
proof (cases "merge_identity identity token (this_data w)")
  case (Inl e)
  then show ?thesis by simp
next
  case (Inr data)
  let ?w0 = "w\<lparr>this_data := data\<rparr>"
  obtain r1 w1 where at: "connect_attempt net identity options ?w0 = (r1, w1)"
    by (cases "connect_attempt net identity options ?w0")
  from connect_attempt_signups [of net identity options ?w0] at
  have sg: "signups (requests w1) = signups (requests w)" by simp
  show ?thesis
  proof (cases r1)
    case r: (Inr u)
    with Inr at have "connect (Suc n) net identity token options w
                        = Some (connect_finish identity options w1)" for n
      by simp
    with sg connect_finish_requests [of identity options w1] show ?thesis
      by (cases "connect_finish identity options w1") auto
  next
    case l: (Inl e)
    show ?thesis
    proof (cases "e = NotFoundError")
      case False
      with l Inr at have "connect (Suc n) net identity token options w = Some (Inl e, w1)" for n
        by (cases e) simp_all
      with sg show ?thesis by blast
    next
      case True
      from connect_attempt_failure_state [of net identity options ?w0 e] at l
      have "this_client w1 = this_client w" by simp
      with act pro have "signup net (this_data w1) options w1
                           = (Inl (ActiveUserError ActiveExists), w1)"
        by (simp add: signup_def)
      with True l Inr at
      have "connect (Suc n) net identity token options w
              = Some (Inl (ActiveUserError ActiveExists), w1)" for n
        by simp
      with sg show ?thesis by blast
    qed
  qed
qed

text \<open>
  C2.  \<^verbatim>\<open>connect(identity, token)\<close> is called with the options at their defaults, so its
  signup is to promote (\<^verbatim>\<open>options.state\<close> is \<^verbatim>\<open>true\<close>).  When the attempt of \<^verbatim>\<open>connect\<close> fails
  with an error other than \<^verbatim>\<open>NotFoundError\<close>, the error goes to the caller as it is.
  When its login fails with \<^verbatim>\<open>NotFoundError\<close>, the login had sent the merged data, and one
  signup request with the same merged data follows.  A signup that fails passes its
  error on as it is and \<^verbatim>\<open>connect\<close> is not called again.  After a signup that succeeds
  \<^verbatim>\<open>connect\<close> is called once more; this call ends in its first round whatever number of
  rounds is allowed, so it does not call \<^verbatim>\<open>connect\<close> again, and it sends no signup; its
  failure goes to the caller as it is.  The whole call has sent exactly one signup.
\<close>

theorem connect_recovery:
  "(merge_identity identity token (this_data w) = Inr data
      \<and> connect_attempt net identity options (w\<lparr>this_data := data\<rparr>) = (Inl e, w1)
      \<and> e \<noteq> NotFoundError
     \<longrightarrow> connect (Suc n) net identity token options w = Some (Inl e, w1))
   \<and> (promoteToActive options
      \<and> merge_identity identity token (this_data w) = Inr data
      \<and> \<not> isActive (this_client w) (this_data w)
      \<and> connect_attempt net identity options (w\<lparr>this_data := data\<rparr>) = (Inl NotFoundError, w1)
     \<longrightarrow> w1 = w\<lparr>this_data := data, requests := requests w @ [LoginReq data]\<rparr>
         \<and> requests (snd (signup net data options w1)) = requests w1 @ [SignupReq data])
   \<and> (promoteToActive options
      \<and> merge_identity identity token (this_data w) = Inr data
      \<and> \<not> isActive (this_client w) (this_data w)
      \<and> connect_attempt net identity options (w\<lparr>this_data := data\<rparr>) = (Inl NotFoundError, w1)
      \<and> signup net data options w1 = (Inl e2, w2)
     \<longrightarrow> connect (Suc n) net identity token options w = Some (Inl e2, w2))
   \<and> (promoteToActive options
      \<and> merge_identity identity token (this_data w) = Inr data
      \<and> \<not> isActive (this_client w) (this_data w)
      \<and> connect_attempt net identity options (w\<lparr>this_data := data\<rparr>) = (Inl NotFoundError, w1)
      \<and> signup net data options w1 = (Inr u, w2)
     \<longrightarrow> (\<exists>r3 w3.
            (\<forall>m. connect (Suc m) net identity token options w2 = Some (r3, w3))
            \<and> signups (requests w3) = signups (requests w2)
            \<and> connect (Suc (Suc n)) net identity token options w
                = Some (case r3 of Inl e3 \<Rightarrow> (Inl e3, w3)
                        | Inr u3 \<Rightarrow> connect_finish identity options w3)
            \<and> signups (requests (snd (case r3 of Inl e3 \<Rightarrow> (Inl e3, w3)
                                        | Inr u3 \<Rightarrow> connect_finish identity options w3)))
                = Suc (signups (requests w))))"
proof -
  have h1: "merge_identity identity token (this_data w) = Inr data
      \<and> connect_attempt net identity options (w\<lparr>this_data := data\<rparr>) = (Inl e, w1)
      \<and> e \<noteq> NotFoundError
     \<longrightarrow> connect (Suc n) net identity token options w = Some (Inl e, w1)"
    by (cases e) simp_all
  have h2: "promoteToActive options
      \<and> merge_identity identity token (this_data w) = Inr data
      \<and> \<not> isActive (this_client w) (this_data w)
      \<and> connect_attempt net identity options (w\<lparr>this_data := data\<rparr>) = (Inl NotFoundError, w1)
     \<longrightarrow> w1 = w\<lparr>this_data := data, requests := requests w @ [LoginReq data]\<rparr>
         \<and> requests (snd (signup net data options w1)) = requests w1 @ [SignupReq data]"
  proof
    assume a: "promoteToActive options
      \<and> merge_identity identity token (this_data w) = Inr data
      \<and> \<not> isActive (this_client w) (this_data w)
      \<and> connect_attempt net identity options (w\<lparr>this_data := data\<rparr>) = (Inl NotFoundError, w1)"
    then have w1: "w1 = w\<lparr>this_data := data, requests := requests w @ [LoginReq data]\<rparr>"
      using connect_login_not_found(1) [of identity token w data net options w1] by blast
    from a have none: "getActiveUser (this_client w1) = None"
      using connect_login_not_found(2) [of identity token w data net options w1] by blast
    from none have "requests (snd (signup net data options w1)) = requests w1 @ [SignupReq data]"
      by (simp add: signup_sent)
    with w1 show "w1 = w\<lparr>this_data := data, requests := requests w @ [LoginReq data]\<rparr>
         \<and> requests (snd (signup net data options w1)) = requests w1 @ [SignupReq data]"
      by blast
  qed
  have h3: "promoteToActive options
      \<and> merge_identity identity token (this_data w) = Inr data
      \<and> \<not> isActive (this_client w) (this_data w)
      \<and> connect_attempt net identity options (w\<lparr>this_data := data\<rparr>) = (Inl NotFoundError, w1)
      \<and> signup net data options w1 = (Inl e2, w2)
     \<longrightarrow> connect (Suc n) net identity token options w = Some (Inl e2, w2)"
  proof
    assume a: "promoteToActive options
      \<and> merge_identity identity token (this_data w) = Inr data
      \<and> \<not> isActive (this_client w) (this_data w)
      \<and> connect_attempt net identity options (w\<lparr>this_data := data\<rparr>) = (Inl NotFoundError, w1)
      \<and> signup net data options w1 = (Inl e2, w2)"
    then have "this_data w1 = data"
      using connect_login_not_found(1) [of identity token w data net options w1] by simp
    with a show "connect (Suc n) net identity token options w = Some (Inl e2, w2)"
      by simp
  qed
  have h4: "promoteToActive options
      \<and> merge_identity identity token (this_data w) = Inr data
      \<and> \<not> isActive (this_client w) (this_data w)
      \<and> connect_attempt net identity options (w\<lparr>this_data := data\<rparr>) = (Inl NotFoundError, w1)
      \<and> signup net data options w1 = (Inr u, w2)
     \<longrightarrow> (\<exists>r3 w3.
            (\<forall>m. connect (Suc m) net identity token options w2 = Some (r3, w3))
            \<and> signups (requests w3) = signups (requests w2)
            \<and> connect (Suc (Suc n)) net identity token options w
                = Some (case r3 of Inl e3 \<Rightarrow> (Inl e3, w3)
                        | Inr u3 \<Rightarrow> connect_finish identity options w3)
            \<and> signups (requests (snd (case r3 of Inl e3 \<Rightarrow> (Inl e3, w3)
                                        | Inr u3 \<Rightarrow> connect_finish identity options w3)))
                = Suc (signups (requests w)))"
  proof
    assume a: "promoteToActive options
      \<and> merge_identity identity token (this_data w) = Inr data
      \<and> \<not> isActive (this_client w) (this_data w)
      \<and> connect_attempt net identity options (w\<lparr>this_data := data\<rparr>) = (Inl NotFoundError, w1)
      \<and> signup net data options w1 = (Inr u, w2)"
    then have pro: "promoteToActive options" by simp
    from a have w1: "w1 = w\<lparr>this_data := data, requests := requests w @ [LoginReq data]\<rparr>"
      using connect_login_not_found(1) [of identity token w data net options w1] by blast
    from a have none: "getActiveUser (this_client w1) = None"
      using connect_login_not_found(2) [of identity token w data net options w1] by blast
    from a pro have act: "getActiveUser (this_client w2) \<noteq> None"
      using signup_success_active [of options net data w1 u w2] by simp
    from connect_active_one_round [OF act pro, of net identity token]
    obtain r3 w3 where c: "\<forall>m. connect (Suc m) net identity token options w2 = Some (r3, w3)"
      and sg3: "signups (requests w3) = signups (requests w2)"
      by blast
    from none a signup_sent [of options w1 net data]
    have "requests w2 = requests w1 @ [SignupReq data]" by simp
    with w1 have sg2: "signups (requests w2) = Suc (signups (requests w))"
      by (simp add: signups_def)
    from w1 have "this_data w1 = data" by simp
    with a c have cc: "connect (Suc (Suc n)) net identity token options w
                = Some (case r3 of Inl e3 \<Rightarrow> (Inl e3, w3)
                        | Inr u3 \<Rightarrow> connect_finish identity options w3)"
      by (cases r3) simp_all
    have "signups (requests (snd (case r3 of Inl e3 \<Rightarrow> (Inl e3, w3)
                                  | Inr u3 \<Rightarrow> connect_finish identity options w3)))
            = Suc (signups (requests w))"
      using sg2 sg3 connect_finish_requests [of identity options w3]
      by (cases r3) simp_all
    with c sg3 cc show "\<exists>r3 w3.
            (\<forall>m. connect (Suc m) net identity token options w2 = Some (r3, w3))
            \<and> signups (requests w3) = signups (requests w2)
            \<and> connect (Suc (Suc n)) net identity token options w
                = Some (case r3 of Inl e3 \<Rightarrow> (Inl e3, w3)
                        | Inr u3 \<Rightarrow> connect_finish identity options w3)
            \<and> signups (requests (snd (case r3 of Inl e3 \<Rightarrow> (Inl e3, w3)
                                        | Inr u3 \<Rightarrow> connect_finish identity options w3)))
                = Suc (signups (requests w))"
      by blast
  qed
  show ?thesis
    by (rule conjI [OF h1 conjI [OF h2 conjI [OF h3 h4]]])
qed

theorem connect_recovery_witness:
  "promoteToActive no_options
   \<and> merge_identity ''facebook'' fb_token (this_data world_fresh) = Inr fb_user
   \<and> \<not> isActive (this_client world_fresh) (this_data world_fresh)
   \<and> connect_attempt net_once ''facebook'' no_options (world_fresh\<lparr>this_data := fb_user\<rparr>)
       = (Inl NotFoundError, world_fb_login)
   \<and> requests (snd (signup net_once fb_user no_options world_fb_login))
       = [LoginReq fb_user, SignupReq fb_user]
   \<and> signup net_once fb_user no_options world_fb_login
       = (Inr (Some fb_user_signed), world_fb_signed)
   \<and> connect (Suc 0) net_once ''facebook'' fb_token no_options world_fb_signed
       = Some (Inr (Some fb_user_signed), world_fb_connected)
   \<and> connect (Suc (Suc 0)) net_once ''facebook'' fb_token no_options world_fresh
       = Some (Inr (Some fb_user_signed), world_fb_connected)
   \<and> requests world_fb_connected
       = [LoginReq fb_user, SignupReq fb_user, UpdateReq fb_user_signed]
   \<and> signups (requests world_fb_connected) = Suc 0
   \<and> connect_attempt net_refuse ''facebook'' no_options (world_fresh\<lparr>this_data := fb_user\<rparr>)
       = (Inl NotFoundError, world_fb_login)
   \<and> signup net_refuse fb_user no_options world_fb_login
       = (Inl (NetworkError ''refused''),
          world_fb_login\<lparr>requests := [LoginReq fb_user, SignupReq fb_user]\<rparr>)
   \<and> connect (Suc 0) net_refuse ''facebook'' fb_token no_options world_fresh
       = Some (Inl (NetworkError ''refused''),
               world_fb_login\<lparr>requests := [LoginReq fb_user, SignupReq fb_user]\<rparr>)
   \<and> connect_attempt net_timeout ''facebook'' no_options (world_fresh\<lparr>this_data := fb_user\<rparr>)
       = (Inl (NetworkError ''timeout''), world_fb_login)
   \<and> NetworkError ''timeout'' \<noteq> NotFoundError
   \<and> connect (Suc 0) net_timeout ''facebook'' fb_token no_options world_fresh
       = Some (Inl (NetworkError ''timeout''), world_fb_login)"
proof -
  note once = connect_recovery [where identity = "''facebook''" and token = fb_token
      and w = world_fresh and data = fb_user and net = net_once and options = no_options
      and ?w1.0 = world_fb_login and n = 0 and ?w2.0 = world_fb_signed
      and u = "Some fb_user_signed"]
  note refuse = connect_recovery [where identity = "''facebook''" and token = fb_token
      and w = world_fresh and data = fb_user and net = net_refuse and options = no_options
      and ?w1.0 = world_fb_login and n = 0 and ?e2.0 = "NetworkError ''refused''"
      and ?w2.0 = "world_fb_login\<lparr>requests := [LoginReq fb_user, SignupReq fb_user]\<rparr>"]
  note timeout = connect_recovery [where identity = "''facebook''" and token = fb_token
      and w = world_fresh and data = fb_user and net = net_timeout and options = no_options
      and e = "NetworkError ''timeout''" and ?w1.0 = world_fb_login and n = 0]
  note once_signup = once [THEN conjunct2, THEN conjunct1]
  note once_retry = once [THEN conjunct2, THEN conjunct2, THEN conjunct2]
  note refuse_signup = refuse [THEN conjunct2, THEN conjunct2, THEN conjunct1]
  note timeout_other = timeout [THEN conjunct1]
  have p: "promoteToActive no_options"
    by (simp add: promoteToActive_def no_options_def)
  have m: "merge_identity ''facebook'' fb_token (this_data world_fresh) = Inr fb_user"
    by (simp add: merge_identity_def world_fresh_def fb_user_def attribute_defs getp_def setp_def)
  have ni: "\<not> isActive (this_client world_fresh) (this_data world_fresh)"
    by (simp add: isActive_def client_defs example_defs)
  have a: "connect_attempt net ''facebook'' no_options (world_fresh\<lparr>this_data := fb_user\<rparr>)
             = (Inl e, world_fb_login)"
    if "net [] (LoginReq fb_user) = Inl e" for net e
    using that
    by (auto simp: connect_attempt_def login_def credentials_def wrap_credentials_def
          execute_def isActive_def client_defs world_fresh_def client_none_def
          world_fb_login_def fb_user_def fb_token_def attribute_defs getp_def Let_def)
  have a1: "connect_attempt net_once ''facebook'' no_options (world_fresh\<lparr>this_data := fb_user\<rparr>)
             = (Inl NotFoundError, world_fb_login)"
    using a [of net_once NotFoundError] by (simp add: net_once_def)
  have a2: "connect_attempt net_timeout ''facebook'' no_options (world_fresh\<lparr>this_data := fb_user\<rparr>)
             = (Inl (NetworkError ''timeout''), world_fb_login)"
    using a [of net_timeout "NetworkError ''timeout''"] by (simp add: net_timeout_def)
  have a3: "connect_attempt net_refuse ''facebook'' no_options (world_fresh\<lparr>this_data := fb_user\<rparr>)
             = (Inl NotFoundError, world_fb_login)"
    using a [of net_refuse NotFoundError] by (simp add: net_refuse_def)
  from once_signup p m ni a1
  have "requests (snd (signup net_once fb_user no_options world_fb_login))
          = requests world_fb_login @ [SignupReq fb_user]"
    by blast
  then have q: "requests (snd (signup net_once fb_user no_options world_fb_login))
          = [LoginReq fb_user, SignupReq fb_user]"
    by (simp add: world_fb_login_def)
  have s1: "signup net_once fb_user no_options world_fb_login
              = (Inr (Some fb_user_signed), world_fb_signed)"
    by (simp add: signup_def execute_def setAsActiveUser_eq p client_defs world_fb_login_def
          world_fb_signed_def client_none_def fb_user_def fb_user_signed_def net_once_def
          setp_def)
  have s3: "signup net_refuse fb_user no_options world_fb_login
       = (Inl (NetworkError ''refused''),
          world_fb_login\<lparr>requests := [LoginReq fb_user, SignupReq fb_user]\<rparr>)"
    by (simp add: signup_def execute_def p client_defs world_fb_login_def client_none_def
          net_refuse_def)
  have c1: "connect (Suc 0) net_once ''facebook'' fb_token no_options world_fb_signed
              = Some (Inr (Some fb_user_signed), world_fb_connected)"
    by (simp add: merge_identity_def connect_attempt_def connect_finish_def update_def save_def
          strip_identities_def isActive_def setAsActiveUser_eq client_defs world_fb_signed_def
          world_fb_connected_def fb_user_signed_def fb_user_def attribute_defs no_options_def
          net_once_def fb_token_def getp_def setp_def delp_def Let_def)
  have fin: "connect_finish ''facebook'' no_options world_fb_connected
               = (Inr (Some fb_user_signed), world_fb_connected)"
    by (simp add: connect_finish_def world_fb_connected_def fb_user_signed_def attribute_defs
          client_defs no_options_def getp_def)
  from once_retry p m ni a1 s1
  obtain r3 w3 where
    r: "\<forall>m. connect (Suc m) net_once ''facebook'' fb_token no_options world_fb_signed
              = Some (r3, w3)"
    and cc: "connect (Suc (Suc 0)) net_once ''facebook'' fb_token no_options world_fresh
               = Some (case r3 of Inl e3 \<Rightarrow> (Inl e3, w3)
                       | Inr u3 \<Rightarrow> connect_finish ''facebook'' no_options w3)"
    by blast
  from r c1 have "r3 = Inr (Some fb_user_signed)" "w3 = world_fb_connected"
    by (simp_all del: connect.simps)
  with cc fin
  have c2: "connect (Suc (Suc 0)) net_once ''facebook'' fb_token no_options world_fresh
              = Some (Inr (Some fb_user_signed), world_fb_connected)"
    by (simp del: connect.simps)
  have rq: "requests world_fb_connected
              = [LoginReq fb_user, SignupReq fb_user, UpdateReq fb_user_signed]"
    by (simp add: world_fb_connected_def)
  have g: "signups (requests world_fb_connected) = Suc 0"
    by (simp add: world_fb_connected_def signups_def)
  from refuse_signup p m ni a3 s3
  have c3: "connect (Suc 0) net_refuse ''facebook'' fb_token no_options world_fresh
       = Some (Inl (NetworkError ''refused''),
               world_fb_login\<lparr>requests := [LoginReq fb_user, SignupReq fb_user]\<rparr>)"
    by blast
  have ne: "NetworkError ''timeout'' \<noteq> NotFoundError" by simp
  from timeout_other m a2 ne
  have c4: "connect (Suc 0) net_timeout ''facebook'' fb_token no_options world_fresh
       = Some (Inl (NetworkError ''timeout''), world_fb_login)"
    by blast
  show ?thesis
    by (intro conjI) (fact p m ni a1 q s1 c1 c2 rq g a3 s3 c3 a2 ne c4)+
qed

end
